theory Spec2Isabelle
  imports Complex_Main "HOL-Library.Word"
begin

section \<open>Strings and numbers of the host language\<close>

text \<open>
  The bot is TypeScript. A string is a sequence of UTF-16 code units, a number is an IEEE
  double. Every number the ledger code handles is a non-negative integer-valued double
  (or the infinite value), so a finite number is kept as an \<open>int\<close> and the places
  where the double format matters (the conversion of a long digit string, and the
  finiteness test) are written out.
\<close>

type_synonym jschar = "16 word"
type_synonym jsstring = "jschar list"

definition js :: "string \<Rightarrow> jsstring" where
  "js s = map (\<lambda>c. of_nat (of_char c)) s"

text \<open>
  The class \<^verbatim>\<open>\s\<close> of a regular expression, which is also what
  \<^verbatim>\<open>String.prototype.trim\<close> removes: the white space and line terminator
  code points of the language standard.
\<close>

definition isWhiteSpace :: "jschar \<Rightarrow> bool" where
  "isWhiteSpace c \<longleftrightarrow>
     c = 0x09 \<or> c = 0x0A \<or> c = 0x0B \<or> c = 0x0C \<or> c = 0x0D \<or> c = 0x20 \<or> c = 0xA0 \<or>
     c = 0x1680 \<or> (0x2000 \<le> c \<and> c \<le> 0x200A) \<or> c = 0x2028 \<or> c = 0x2029 \<or>
     c = 0x202F \<or> c = 0x205F \<or> c = 0x3000 \<or> c = 0xFEFF"

text \<open>The class \<^verbatim>\<open>\d\<close>: the ten ASCII digits.\<close>

definition isDigit :: "jschar \<Rightarrow> bool" where
  "isDigit c \<longleftrightarrow> 0x30 \<le> c \<and> c \<le> 0x39"

definition digitVal :: "jschar \<Rightarrow> nat" where
  "digitVal c = unat c - 0x30"

text \<open>The mathematical integer written by a string of decimal digits.\<close>

fun digitsValue :: "nat \<Rightarrow> jsstring \<Rightarrow> nat" where
  "digitsValue acc [] = acc"
| "digitsValue acc (c # cs) = digitsValue (10 * acc + digitVal c) cs"

text \<open>
  A number as the ledger code meets it: a finite integer-valued double, or the infinite
  value that \<^verbatim>\<open>parseInt\<close> gives for a digit string beyond the double range.
\<close>

datatype jsnumber = Num int | Infinity

fun bitLength :: "nat \<Rightarrow> nat" where
  "bitLength n = (if n = 0 then 0 else Suc (bitLength (n div 2)))"

declare bitLength.simps [simp del]

text \<open>
  The double for a non-negative mathematical integer: exact while the integer fits in the
  53 bits of the significand, otherwise rounded to the nearest double, ties to the even
  significand, and infinite when the rounded value reaches \<open>2 ^ 1024\<close>. Here
  \<open>e\<close> is the number of bits that do not fit, \<open>q\<close> the 53 leading bits, \<open>r\<close> the
  bits cut off and \<open>h\<close> half a unit in the last place. The language standard lets an
  engine read the digits after the twentieth as zeros; Node's engine converts the whole
  digit string, and that is what is written here.
\<close>

definition numberOfNat :: "nat \<Rightarrow> jsnumber" where
  "numberOfNat n =
     (if n < 2 ^ 53 then Num (int n)
      else let e = bitLength n - 53;
               q = n div 2 ^ e;
               r = n mod 2 ^ e;
               h = 2 ^ (e - 1);
               m = (if h < r \<or> (r = h \<and> odd q) then q + 1 else q)
           in if 2 ^ 1024 \<le> m * 2 ^ e then Infinity else Num (int (m * 2 ^ e)))"

text \<open>\<^verbatim>\<open>parseInt(cleaned, 10)\<close> on a string already known to be all digits.\<close>

definition parseInt10 :: "jsstring \<Rightarrow> jsnumber" where
  "parseInt10 cleaned = numberOfNat (digitsValue 0 cleaned)"

text \<open>\<^verbatim>\<open>Math.round\<close>: the nearest integer, a tie going up.\<close>

definition Math_round :: "rat \<Rightarrow> int" where
  "Math_round x = \<lfloor>x + 1 / 2\<rfloor>"

subsection \<open>The amount parser\<close>

text \<open>
  \<^verbatim>\<open>
  function parseKrwAmount(raw: string): number | null {
    if (!raw) return null;
    const cleaned = raw.replace(/[.,\s_]/g, '');
    if (!/^\d+$/.test(cleaned)) return null;
    const value = parseInt(cleaned, 10);
    return Number.isFinite(value) ? value : null;
  }
  \<close>
\<close>

definition isSeparator :: "jschar \<Rightarrow> bool" where
  "isSeparator c \<longleftrightarrow> c = 0x2E \<or> c = 0x2C \<or> isWhiteSpace c \<or> c = 0x5F"

definition cleanedOf :: "jsstring \<Rightarrow> jsstring" where
  "cleanedOf raw = filter (\<lambda>c. \<not> isSeparator c) raw"

definition allDigits :: "jsstring \<Rightarrow> bool" where
  "allDigits s \<longleftrightarrow> s \<noteq> [] \<and> list_all isDigit s"

definition parseKrwAmount :: "jsstring \<Rightarrow> int option" where
  "parseKrwAmount raw =
     (if raw = [] then None
      else let cleaned = cleanedOf raw in
        if \<not> allDigits cleaned then None
        else (case parseInt10 cleaned of
                Num v \<Rightarrow> Some v
              | Infinity \<Rightarrow> None))"

section \<open>Splitting a message into amount and note\<close>

text \<open>\<^verbatim>\<open>String.prototype.trim\<close>, \<^verbatim>\<open>split(' ')\<close> and \<^verbatim>\<open>join(' ')\<close>.\<close>

definition trim :: "jsstring \<Rightarrow> jsstring" where
  "trim s = rev (dropWhile isWhiteSpace (rev (dropWhile isWhiteSpace s)))"

fun split_on :: "jschar \<Rightarrow> jsstring \<Rightarrow> jsstring list" where
  "split_on d [] = [[]]"
| "split_on d (c # cs) =
     (if c = d then [] # split_on d cs
      else (case split_on d cs of
              [] \<Rightarrow> [[c]]
            | p # ps \<Rightarrow> (c # p) # ps))"

fun join_with :: "jsstring \<Rightarrow> jsstring list \<Rightarrow> jsstring" where
  "join_with sep [] = []"
| "join_with sep [p] = p"
| "join_with sep (p # q # ps) = p @ sep @ join_with sep (q # ps)"

text \<open>
  The first three statements of the text handler after its idle guard:
  \<^verbatim>\<open>
  const parts = ctx.message.text.trim().split(' ');
  const amount = parseKrwAmount(parts[0]);
  const note = parts.slice(1).join(' ') || '';
  \<close>
  An array read out of range gives \<^verbatim>\<open>undefined\<close>, which the parser rejects as
  it rejects the empty string.
\<close>

definition textParts :: "jsstring \<Rightarrow> jsstring list" where
  "textParts text = split_on 0x20 (trim text)"

definition textAmount :: "jsstring \<Rightarrow> int option" where
  "textAmount text = (case textParts text of [] \<Rightarrow> None | p # _ \<Rightarrow> parseKrwAmount p)"

definition textNote :: "jsstring \<Rightarrow> jsstring" where
  "textNote text = join_with [0x20] (drop 1 (textParts text))"

section \<open>Data model\<close>

text \<open>
  \<^verbatim>\<open>
  type UserName = 'Sheyx' | 'Polvon';
  type SessionName = UserName | 'Umumiy' | null;
  type Mode = 'debt' | 'expenses' | null;
  interface IEntry { id: string; name: UserName; amount: number; note: string; time: Date; }
  interface ISession { userId: string; name: SessionName; mode: Mode; }
  \<close>
  A \<^verbatim>\<open>null\<close> is \<open>None\<close>. A date is its count of milliseconds.
\<close>

datatype UserName = Sheyx | Polvon

datatype SessionName = Person UserName | Umumiy

datatype Mode = Debt | Expenses

record IEntry =
  e_id :: jsstring
  e_name :: UserName
  e_amount :: int
  e_note :: jsstring
  e_time :: int

record ISession =
  s_name :: "SessionName option"
  s_mode :: "Mode option"

text \<open>
  The two collections. The session collection has a unique index on \<^verbatim>\<open>userId\<close>,
  so it is a map from that key; the entry collection keeps insertion order. The store
  and the message transport are taken to work: the handlers' \<^verbatim>\<open>catch\<close> branches,
  which only run when one of them throws, are not part of the model.
\<close>

record store =
  entries :: "IEntry list"
  sessions :: "jsstring \<rightharpoonup> ISession"

definition ALLOWED_USERS :: "jsstring list" where
  "ALLOWED_USERS = [js ''615764917'', js ''499127006'']"

subsection \<open>Store operations\<close>

text \<open>
  \<^verbatim>\<open>Session.findOneAndUpdate({ userId }, update, { upsert })\<close>: the update is applied to
  the user's session; without one, a session with the schema defaults is created first
  when \<^verbatim>\<open>upsert\<close> is set, and nothing happens otherwise.
\<close>

definition Session_findOneAndUpdate ::
  "bool \<Rightarrow> jsstring \<Rightarrow> (ISession \<Rightarrow> ISession) \<Rightarrow> store \<Rightarrow> store" where
  "Session_findOneAndUpdate upsert userId update st =
     (case sessions st userId of
        Some s \<Rightarrow> st\<lparr>sessions := (sessions st)(userId \<mapsto> update s)\<rparr>
      | None \<Rightarrow>
          if upsert
          then st\<lparr>sessions := (sessions st)(userId \<mapsto> update \<lparr>s_name = None, s_mode = None\<rparr>)\<rparr>
          else st)"

definition resetSession :: "ISession \<Rightarrow> ISession" where
  "resetSession s = s\<lparr>s_name := None, s_mode := None\<rparr>"

definition Entry_insertMany :: "IEntry list \<Rightarrow> store \<Rightarrow> store" where
  "Entry_insertMany es st = st\<lparr>entries := entries st @ es\<rparr>"

definition Entry_save :: "IEntry \<Rightarrow> store \<Rightarrow> store" where
  "Entry_save e st = st\<lparr>entries := entries st @ [e]\<rparr>"

definition Entry_deleteMany :: "store \<Rightarrow> store" where
  "Entry_deleteMany st = st\<lparr>entries := []\<rparr>"

definition Entry_findOne :: "jsstring \<Rightarrow> store \<Rightarrow> IEntry option" where
  "Entry_findOne entryId st = find (\<lambda>e. e_id e = entryId) (entries st)"

fun deleteFirst :: "('a \<Rightarrow> bool) \<Rightarrow> 'a list \<Rightarrow> 'a list" where
  "deleteFirst P [] = []"
| "deleteFirst P (x # xs) = (if P x then xs else x # deleteFirst P xs)"

definition Entry_deleteOne :: "jsstring \<Rightarrow> store \<Rightarrow> store" where
  "Entry_deleteOne entryId st = st\<lparr>entries := deleteFirst (\<lambda>e. e_id e = entryId) (entries st)\<rparr>"

section \<open>What a handler sends\<close>

text \<open>
  Each constructor stands for one message template of the source and carries the values
  the template interpolates, in the order the template prints them; the wording and the
  inline keyboards are not modelled. So \<open>UnauthorizedAlert\<close> carries user name,
  identity and message text; \<open>UmumiyRecorded\<close> total and share; \<open>UmumiySplitNotice\<close>
  total, share, note and time; \<open>ExpensesRecorded\<close> name, total and half;
  \<open>ExpensesNotice\<close> name, half, total, note and time; \<open>DebtRecorded\<close> name and
  amount; \<open>DebtNotice\<close> name, amount, note and time.
\<close>

datatype message =
    UnauthorizedAlert jsstring jsstring jsstring
  | NotAuthorizedForBot
  | NotAuthorized
  | NotAuthorizedToDelete
  | WhoIsAdding
  | UmumiyPrompt
  | OperationCancelled
  | ChooseType UserName
  | ExpensesPrompt "SessionName option"
  | DebtPrompt
  | ClearApprovalRequest jsstring
  | ClearRequestSent
  | ClearPrepareError
  | AllCleared
  | EntriesCleared
  | ClearDeniedByOther
  | YourClearDenied
  | DeleteUsage
  | EntryNotFound jsstring
  | EntryDeleted jsstring
  | EntryDeletedByAdmin IEntry
  | InvalidAmount
  | UmumiyRecorded int int
  | UmumiySplitNotice int int jsstring int
  | ExpensesRecorded UserName int int
  | ExpensesNotice UserName int int jsstring int
  | DebtRecorded UserName int
  | DebtNotice UserName int jsstring int

text \<open>
  The report file of \<^verbatim>\<open>/clear\<close>: the entries handed to the report builder and the
  entries its balances were summed from.
\<close>

datatype document = PreviewReport "IEntry list" "IEntry list"

datatype outbound =
    Reply message
  | SendMessage jsstring message
  | SendDocument jsstring document
  | AnswerCbQuery

text \<open>
  What the sender of an update looks like to a handler: \<^verbatim>\<open>String(ctx.from?.id)\<close>,
  \<^verbatim>\<open>ctx.from?.username\<close> as a template prints it, and the text of
  \<^verbatim>\<open>ctx.message\<close> when the update is a message that has one.
\<close>

record ctx =
  from_id :: jsstring
  from_username :: jsstring
  message_text :: "jsstring option"

text \<open>
  The values a handler draws from outside while it runs: the \<open>k\<close>-th call of
  \<^verbatim>\<open>nanoid()\<close> and the \<open>k\<close>-th \<^verbatim>\<open>new Date()\<close> of the run, counted from 0.
\<close>

record effects =
  nanoid :: "nat \<Rightarrow> jsstring"
  new_Date :: "nat \<Rightarrow> int"

type_synonym handler = "store \<Rightarrow> store \<times> outbound list"

definition otherUser :: "jsstring \<Rightarrow> jsstring option" where
  "otherUser userId = find (\<lambda>uid. uid \<noteq> userId) ALLOWED_USERS"

text \<open>
  \<^verbatim>\<open>
  for (const uid of ALLOWED_USERS) {
    if (uid !== userId) { await bot.telegram.sendMessage(uid, `... ${moment(new Date())...}`); }
  }
  \<close>
  Each message sent reads the clock once; \<open>k\<close> counts the readings made so far.
\<close>

fun notifyOthers ::
  "jsstring list \<Rightarrow> jsstring \<Rightarrow> (int \<Rightarrow> message) \<Rightarrow> effects \<Rightarrow> nat \<Rightarrow> outbound list" where
  "notifyOthers [] userId mk env k = []"
| "notifyOthers (uid # uids) userId mk env k =
     (if uid \<noteq> userId
      then SendMessage uid (mk (new_Date env k)) # notifyOthers uids userId mk env (Suc k)
      else notifyOthers uids userId mk env k)"

section \<open>Handlers\<close>

subsection \<open>Access guard\<close>

text \<open>
  \<^verbatim>\<open>
  bot.use(async (ctx, next) => {
    const userId = String(ctx.from?.id);
    if (!ALLOWED_USERS.includes(userId)) {
      await bot.telegram.sendMessage(ADMIN_ID,
        `... User: ${ctx.from?.username} (${ctx.from?.id})\nMessage: ${
          ctx.message && 'text' in ctx.message ? ctx.message.text : 'Unknown'}`);
      return ctx.reply('... You are not authorized to use this bot.');
    }
    return next();
  });
  \<close>
  \<open>next\<close> is the rest of the chain: every command, action and text handler.
  \<^verbatim>\<open>ADMIN_ID\<close> comes from the process environment and is a parameter.
\<close>

definition auth :: "jsstring \<Rightarrow> ctx \<Rightarrow> handler \<Rightarrow> handler" where
  "auth ADMIN_ID c next st =
     (if from_id c \<notin> set ALLOWED_USERS
      then (st, [SendMessage ADMIN_ID
                   (UnauthorizedAlert (from_username c) (from_id c)
                      (case message_text c of Some t \<Rightarrow> t | None \<Rightarrow> js ''Unknown'')),
                 Reply NotAuthorizedForBot])
      else next st)"

subsection \<open>Choosing who and which type\<close>

definition add_cmd :: "jsstring \<Rightarrow> handler" where
  "add_cmd userId st =
     (Session_findOneAndUpdate True userId resetSession st, [Reply WhoIsAdding])"

definition choose_Umumiy :: "jsstring \<Rightarrow> handler" where
  "choose_Umumiy userId st =
     (Session_findOneAndUpdate True userId (\<lambda>s. s\<lparr>s_name := Some Umumiy, s_mode := None\<rparr>) st,
      [Reply UmumiyPrompt, AnswerCbQuery])"

definition choose_cancel :: "jsstring \<Rightarrow> handler" where
  "choose_cancel userId st =
     (Session_findOneAndUpdate False userId resetSession st,
      [Reply OperationCancelled, AnswerCbQuery])"

definition cancel_cmd :: "jsstring \<Rightarrow> handler" where
  "cancel_cmd userId st =
     (Session_findOneAndUpdate False userId resetSession st, [Reply OperationCancelled])"

text \<open>
  \<^verbatim>\<open>
  bot.action(/choose_(Sheyx|Polvon)/, async (ctx) => {
    const chosenName = ctx.match[1] as UserName;
    await Session.findOneAndUpdate({ userId }, { name: chosenName, mode: null }, { upsert: true });
    await ctx.reply(`Choose the type for ${chosenName}:`, ...);
    await ctx.answerCbQuery();
  });
  \<close>
\<close>

definition choose_person :: "UserName \<Rightarrow> jsstring \<Rightarrow> handler" where
  "choose_person chosenName userId st =
     (Session_findOneAndUpdate True userId
        (\<lambda>s. s\<lparr>s_name := Some (Person chosenName), s_mode := None\<rparr>) st,
      [Reply (ChooseType chosenName), AnswerCbQuery])"

definition type_expenses :: "jsstring \<Rightarrow> handler" where
  "type_expenses userId st =
     (let who = (case sessions st userId of None \<Rightarrow> None | Some sess \<Rightarrow> s_name sess)
      in (Session_findOneAndUpdate False userId (\<lambda>s. s\<lparr>s_mode := Some Expenses\<rparr>) st,
          [Reply (ExpensesPrompt who), AnswerCbQuery]))"

definition type_debt :: "jsstring \<Rightarrow> handler" where
  "type_debt userId st =
     (Session_findOneAndUpdate False userId (\<lambda>s. s\<lparr>s_mode := Some Debt\<rparr>) st,
      [Reply DebtPrompt, AnswerCbQuery])"

subsection \<open>Clearing with approval\<close>

text \<open>
  \<^verbatim>\<open>
  bot.command('clear', async (ctx) => {
    if (!ALLOWED_USERS.includes(userId)) return ctx.reply("... You're not authorized.");
    const { balances, entries } = await getBalances();
    const recent = [...entries].sort((a, b) => b.time.getTime() - a.time.getTime()).slice(0, 4);
    ... await bot.telegram.sendDocument(ADMIN_ID, { source: filePath });
    const otherUserId = ALLOWED_USERS.find((uid) => uid !== userId);
    await bot.telegram.sendMessage(otherUserId!, `... User ${ctx.from?.username} is requesting ...`, ...);
    await ctx.reply('... Request to clear entries has been sent to the other user for approval.');
  });
  \<close>
  A send without a recipient throws, and the handler's \<^verbatim>\<open>catch\<close> replies with the
  preparation error.
\<close>

definition clear_cmd :: "jsstring \<Rightarrow> jsstring \<Rightarrow> jsstring \<Rightarrow> handler" where
  "clear_cmd ADMIN_ID userId username st =
     (if userId \<notin> set ALLOWED_USERS then (st, [Reply NotAuthorized])
      else let recent = take 4 (sort_key (\<lambda>e. - e_time e) (entries st));
               report = SendDocument ADMIN_ID (PreviewReport recent (entries st))
           in (case otherUser userId of
                 Some otherUserId \<Rightarrow>
                   (st, [report, SendMessage otherUserId (ClearApprovalRequest username),
                         Reply ClearRequestSent])
               | None \<Rightarrow> (st, [report, Reply ClearPrepareError])))"

text \<open>
  \<^verbatim>\<open>
  bot.action('approve_clear', async (ctx) => {
    if (!ALLOWED_USERS.includes(userId)) return ctx.reply("... You're not authorized.");
    await Entry.deleteMany({});
    await ctx.reply('... All entries have been cleared.');
    const otherUserId = ALLOWED_USERS.find((uid) => uid !== userId);
    if (otherUserId) await bot.telegram.sendMessage(otherUserId, '... The entries have been cleared.');
  });
  \<close>
\<close>

definition approve_clear :: "jsstring \<Rightarrow> handler" where
  "approve_clear userId st =
     (if userId \<notin> set ALLOWED_USERS then (st, [Reply NotAuthorized])
      else (Entry_deleteMany st,
            Reply AllCleared #
            (case otherUser userId of
               Some otherUserId \<Rightarrow> [SendMessage otherUserId EntriesCleared]
             | None \<Rightarrow> [])))"

text \<open>
  \<^verbatim>\<open>
  bot.action('deny_clear', async (ctx) => {
    if (!ALLOWED_USERS.includes(userId)) return ctx.reply("... You're not authorized.");
    const otherUserId = ALLOWED_USERS.find((uid) => uid !== userId);
    await bot.telegram.sendMessage(otherUserId!, '... The request to clear entries was denied by the other user.');
    await ctx.reply('... Your request to clear entries has been denied.');
  });
  \<close>
  Without a recipient the first send throws and nothing is sent.
\<close>

definition deny_clear :: "jsstring \<Rightarrow> handler" where
  "deny_clear userId st =
     (if userId \<notin> set ALLOWED_USERS then (st, [Reply NotAuthorized])
      else (case otherUser userId of
              Some otherUserId \<Rightarrow>
                (st, [SendMessage otherUserId ClearDeniedByOther, Reply YourClearDenied])
            | None \<Rightarrow> (st, [])))"

subsection \<open>Delete by id\<close>

text \<open>
  \<^verbatim>\<open>
  bot.command('delete', async (ctx) => {
    const messageParts = ctx.message.text.split(' ');
    if (messageParts.length !== 2) return ctx.reply('... Usage: /delete <entry_id> ...');
    const entryId = messageParts[1];
    const entry = await Entry.findOne({ id: entryId });
    if (!entry) return ctx.reply(`... Entry with ID ${entryId} not found.`);
    if (!ALLOWED_USERS.includes(userId) || userId !== ADMIN_ID)
      return ctx.reply("... You're not authorized to delete entries.");
    await Entry.deleteOne({ id: entryId });
    ctx.reply(`... Entry ${entryId} deleted successfully.`);
    for (const uid of ALLOWED_USERS) if (uid !== userId) await bot.telegram.sendMessage(uid, ...);
  });
  \<close>
\<close>

definition delete_cmd :: "jsstring \<Rightarrow> jsstring \<Rightarrow> jsstring \<Rightarrow> handler" where
  "delete_cmd ADMIN_ID userId text st =
     (case split_on 0x20 text of
        [command, entryId] \<Rightarrow>
          (case Entry_findOne entryId st of
             None \<Rightarrow> (st, [Reply (EntryNotFound entryId)])
           | Some entry \<Rightarrow>
               if userId \<notin> set ALLOWED_USERS \<or> userId \<noteq> ADMIN_ID
               then (st, [Reply NotAuthorizedToDelete])
               else (Entry_deleteOne entryId st,
                     Reply (EntryDeleted entryId) #
                     map (\<lambda>uid. SendMessage uid (EntryDeletedByAdmin entry))
                       (filter (\<lambda>uid. uid \<noteq> userId) ALLOWED_USERS)))
      | _ \<Rightarrow> (st, [Reply DeleteUsage]))"

subsection \<open>The text handler\<close>

text \<open>
  \<^verbatim>\<open>
  bot.on('text', async (ctx) => {
    const session = await Session.findOne({ userId });
    if (!session?.name) return;
    const parts = ...; const amount = ...; const note = ...;
    if (amount === null) return ctx.reply('... Invalid amount. ...');
    if (session.name === 'Umumiy') {
      const share = Math.round(amount / 2);
      const entries = (['Sheyx', 'Polvon'] as UserName[]).map((name) =>
        new Entry({ id: nanoid(), name, amount: share, note, time: new Date() }));
      await Entry.insertMany(entries);
      await Session.findOneAndUpdate({ userId }, { name: null, mode: null });
      await ctx.reply(...); for (...) sendMessage(...); return;
    }
    if (session.mode === 'expenses') {
      const half = Math.round(amount / 2);
      const entry = new Entry({ id: nanoid(), name: session.name, amount: half, note, time: new Date() });
      await entry.save(); await Session.findOneAndUpdate(...); ...; return;
    }
    const entry = new Entry({ id: nanoid(), name: session.name, amount, note, time: new Date() });
    await entry.save(); await Session.findOneAndUpdate(...); ...
  });
  \<close>
\<close>

definition newEntry :: "effects \<Rightarrow> nat \<Rightarrow> UserName \<Rightarrow> int \<Rightarrow> jsstring \<Rightarrow> IEntry" where
  "newEntry env k name amount note =
     \<lparr>e_id = nanoid env k, e_name = name, e_amount = amount, e_note = note,
      e_time = new_Date env k\<rparr>"

definition on_text :: "effects \<Rightarrow> jsstring \<Rightarrow> jsstring \<Rightarrow> handler" where
  "on_text env userId text st =
     (case sessions st userId of
        None \<Rightarrow> (st, [])
      | Some session \<Rightarrow>
          (case s_name session of
             None \<Rightarrow> (st, [])
           | Some name \<Rightarrow>
               let note = textNote text in
               (case textAmount text of
                  None \<Rightarrow> (st, [Reply InvalidAmount])
                | Some amount \<Rightarrow>
                    (case name of
                       Umumiy \<Rightarrow>
                         let share = Math_round (of_int amount / 2);
                             es = map (\<lambda>(k, name). newEntry env k name share note)
                                    (enumerate 0 [Sheyx, Polvon])
                         in (Session_findOneAndUpdate False userId resetSession
                               (Entry_insertMany es st),
                             Reply (UmumiyRecorded amount share) #
                             notifyOthers ALLOWED_USERS userId
                               (UmumiySplitNotice amount share note) env 2)
                     | Person who \<Rightarrow>
                         if s_mode session = Some Expenses
                         then let half = Math_round (of_int amount / 2);
                                  entry = newEntry env 0 who half note
                              in (Session_findOneAndUpdate False userId resetSession
                                    (Entry_save entry st),
                                  Reply (ExpensesRecorded who amount half) #
                                  notifyOthers ALLOWED_USERS userId
                                    (ExpensesNotice who half amount note) env 1)
                         else let entry = newEntry env 0 who amount note
                              in (Session_findOneAndUpdate False userId resetSession
                                    (Entry_save entry st),
                                  Reply (DebtRecorded who amount) #
                                  notifyOthers ALLOWED_USERS userId
                                    (DebtNotice who amount note) env 1)))))"

section \<open>Reference points for the statements\<close>

text \<open>
  The least integer that \<open>numberOfNat\<close> sends to the infinite value: the midpoint between
  the largest finite double, \<open>2 ^ 1024 - 2 ^ 971\<close>, and \<open>2 ^ 1024\<close>.
\<close>

definition overflowBound :: nat where
  "overflowBound = 2 ^ 1024 - 2 ^ 970"

text \<open>
  The amount parser as the specification words it, for comparison with
  \<open>parseKrwAmount\<close>: strip period, comma, space and underscore; succeed with the integer
  the remaining characters write exactly when they are a non-empty run of decimal digits.
\<close>

definition specParse :: "jsstring \<Rightarrow> int option" where
  "specParse raw =
     (let rest = filter (\<lambda>c. c \<noteq> 0x2E \<and> c \<noteq> 0x2C \<and> c \<noteq> 0x20 \<and> c \<noteq> 0x5F) raw
      in if rest \<noteq> [] \<and> list_all isDigit rest then Some (int (digitsValue 0 rest)) else None)"

text \<open>
  The first whitespace-delimited token of a message, as the specification words the
  tokenisation, for comparison with the first element of \<open>textParts\<close>.
\<close>

definition specFirstToken :: "jsstring \<Rightarrow> jsstring" where
  "specFirstToken text = takeWhile (\<lambda>c. \<not> isWhiteSpace c) (dropWhile isWhiteSpace text)"

subsection \<open>Sample data\<close>

definition userA :: jsstring where
  "userA = js ''615764917''"

definition userB :: jsstring where
  "userB = js ''499127006''"

definition stranger :: jsstring where
  "stranger = js ''700700700''"

definition sampleId :: "nat \<Rightarrow> jsstring" where
  "sampleId k = js ''V1StGXR8_Z5jdHi6B-my'' @ [0x30 + of_nat k]"

definition sampleClock :: "nat \<Rightarrow> int" where
  "sampleClock k = 1700000000000 + int k"

definition sampleEffects :: effects where
  "sampleEffects = \<lparr>nanoid = sampleId, new_Date = sampleClock\<rparr>"

definition sampleEntry :: IEntry where
  "sampleEntry = \<lparr>e_id = js ''abc123'', e_name = Sheyx, e_amount = 30000,
                   e_note = js ''borrowed'', e_time = 1690000000000\<rparr>"

text \<open>A store with one entry in which user A's session holds the given name and mode.\<close>

definition sampleStore :: "SessionName option \<Rightarrow> Mode option \<Rightarrow> store" where
  "sampleStore name mode =
     \<lparr>entries = [sampleEntry], sessions = [userA \<mapsto> \<lparr>s_name = name, s_mode = mode\<rparr>]\<rparr>"

definition emptyStore :: store where
  "emptyStore = \<lparr>entries = [], sessions = Map.empty\<rparr>"

text \<open>A two-line message: the amount, a line feed, the note.\<close>

definition twoLineText :: jsstring where
  "twoLineText = js ''100'' @ [0x0A] @ js ''lunch''"

definition tabbedAmount :: jsstring where
  "tabbedAmount = js ''1'' @ [0x09] @ js ''2''"

text \<open>A two-line message: a lone period, a line feed, then \<^verbatim>\<open>5 x\<close>.\<close>

definition dotLineText :: jsstring where
  "dotLineText = js ''.'' @ [0x0A] @ js ''5 x''"

section \<open>Facts about the number conversion\<close>

lemma bitLength_pos: "0 < n \<Longrightarrow> 0 < bitLength n"
  by (subst bitLength.simps) simp

lemma bitLength_lower: "0 < n \<Longrightarrow> 2 ^ (bitLength n - 1) \<le> n"
proof (induction n rule: bitLength.induct)
  case (1 n)
  show ?case
  proof (cases "n div 2 = 0")
    case True
    with 1(2) have "n = 1" by (simp add: div_eq_0_iff)
    then show ?thesis by (simp add: bitLength.simps [of "Suc 0"] bitLength.simps [of 0])
  next
    case False
    then have pos: "0 < n div 2" by simp
    with 1 have ih: "2 ^ (bitLength (n div 2) - 1) \<le> n div 2" by simp
    have "bitLength n = Suc (bitLength (n div 2))"
      using 1(2) by (subst bitLength.simps) simp
    moreover have "0 < bitLength (n div 2)" using pos by (rule bitLength_pos)
    ultimately have "2 ^ (bitLength n - 1) = 2 * 2 ^ (bitLength (n div 2) - 1)"
      by (cases "bitLength (n div 2)") simp_all
    also have "\<dots> \<le> 2 * (n div 2)" using ih by simp
    also have "\<dots> \<le> n" by simp
    finally show ?thesis .
  qed
qed

lemma bitLength_upper: "n < 2 ^ bitLength n"
proof (induction n rule: bitLength.induct)
  case (1 n)
  show ?case
  proof (cases "n = 0")
    case True
    then show ?thesis by simp
  next
    case False
    with 1 have ih: "n div 2 < 2 ^ bitLength (n div 2)" by simp
    have eq: "bitLength n = Suc (bitLength (n div 2))"
      using False by (subst bitLength.simps) simp
    have "n < 2 * (n div 2 + 1)" by presburger
    also have "\<dots> \<le> 2 * 2 ^ bitLength (n div 2)" using ih by simp
    finally show ?thesis by (simp add: eq)
  qed
qed

lemma bitLength_le: "n < 2 ^ k \<Longrightarrow> bitLength n \<le> k"
proof (rule ccontr)
  assume lt: "n < 2 ^ k" and "\<not> bitLength n \<le> k"
  then have k: "k \<le> bitLength n - 1" by simp
  have "0 < n" using \<open>\<not> bitLength n \<le> k\<close> by (cases "n = 0") (simp_all add: bitLength.simps [of 0])
  then have "2 ^ (bitLength n - 1) \<le> n" by (rule bitLength_lower)
  moreover have "(2::nat) ^ k \<le> 2 ^ (bitLength n - 1)" using k by (simp add: power_increasing)
  ultimately have "2 ^ k \<le> n" by (rule order_trans [rotated])
  with lt show False by simp
qed

lemma bitLength_ge: "2 ^ k \<le> n \<Longrightarrow> k < bitLength n"
proof (rule ccontr)
  assume le: "2 ^ k \<le> n" and "\<not> k < bitLength n"
  then have "bitLength n \<le> k" by simp
  then have "(2::nat) ^ bitLength n \<le> 2 ^ k" by (simp add: power_increasing)
  with bitLength_upper [of n] le show False by simp
qed

lemma numberOfNat_exact: "n \<le> 2 ^ 53 \<Longrightarrow> numberOfNat n = Num (int n)"
proof (cases "n < 2 ^ 53")
  case True
  then show ?thesis by (simp add: numberOfNat_def)
next
  case False
  assume "n \<le> 2 ^ 53"
  with False have n: "n = 2 ^ 53" by simp
  have "53 < bitLength n" by (rule bitLength_ge) (simp add: n)
  moreover have "bitLength n \<le> 54" by (rule bitLength_le) (simp add: n)
  ultimately have "bitLength n = 54" by simp
  then have "bitLength (9007199254740992::nat) = 54" by (simp add: n)
  then show ?thesis by (simp add: numberOfNat_def n)
qed

lemma numberOfNat_nonneg: "numberOfNat n = Num v \<Longrightarrow> 0 \<le> v"
  by (auto simp: numberOfNat_def Let_def split: if_splits)

text \<open>
  The conversion overflows exactly from \<open>2 ^ 1024 - 2 ^ 970\<close> on, the midpoint between
  the largest finite double and \<open>2 ^ 1024\<close>.
\<close>

lemma numberOfNat_Infinity_iff: "numberOfNat n = Infinity \<longleftrightarrow> 2 ^ 1024 - 2 ^ 970 \<le> n"
proof (cases "n < 2 ^ 53")
  case True
  then show ?thesis by (simp add: numberOfNat_def)
next
  case False
  define e where "e = bitLength n - 53"
  define q where "q = n div 2 ^ e"
  define r where "r = n mod 2 ^ e"
  define m where "m = (if 2 ^ (e - 1) < r \<or> (r = 2 ^ (e - 1) \<and> odd q) then q + 1 else q)"
  from False have "2 ^ 53 \<le> n" by simp
  then have L53: "53 < bitLength n" by (rule bitLength_ge)
  then have L: "bitLength n = 53 + e" and e1: "1 \<le> e" by (simp_all add: e_def)
  have npos: "0 < n" using False by simp
  have lo: "2 ^ (52 + e) \<le> n" using bitLength_lower [OF npos] by (simp add: L)
  have hi: "n < 2 ^ (53 + e)" using bitLength_upper [of n] by (simp add: L)
  have n_eq: "n = q * 2 ^ e + r" unfolding q_def r_def by (rule div_mult_mod_eq [symmetric])
  have r_lt: "r < 2 ^ e" by (simp add: r_def)
  have q_lo: "2 ^ 52 \<le> q"
  proof -
    have "2 ^ 52 * 2 ^ e \<le> n" using lo by (simp add: power_add)
    then show ?thesis unfolding q_def by (simp add: less_eq_div_iff_mult_less_eq)
  qed
  have q_hi: "q < 2 ^ 53"
  proof -
    have "n < 2 ^ 53 * 2 ^ e" using hi by (simp add: power_add)
    then show ?thesis unfolding q_def by (simp add: div_less_iff_less_mult)
  qed
  have m_lo: "q \<le> m" and m_hi: "m \<le> q + 1" by (simp_all add: m_def)
  have unfold: "numberOfNat n = (if 2 ^ 1024 \<le> m * 2 ^ e then Infinity else Num (int (m * 2 ^ e)))"
    using False by (simp add: numberOfNat_def Let_def e_def q_def r_def m_def)
  have key: "2 ^ 1024 \<le> m * 2 ^ e \<longleftrightarrow> 2 ^ 1024 - 2 ^ 970 \<le> n"
  proof -
    consider "e < 971" | "971 < e" | "e = 971" by linarith
    then show ?thesis
    proof cases
      case 1
      have "m * 2 ^ e \<le> 2 ^ 53 * 2 ^ e" using m_hi q_hi by (intro mult_right_mono) simp_all
      also have "\<dots> = 2 ^ (53 + e)" by (simp add: power_add)
      also have "\<dots> \<le> 2 ^ 1023" using 1 by (intro power_increasing) simp_all
      finally have a: "m * 2 ^ e \<le> 2 ^ 1023" .
      have "n < 2 ^ (53 + e)" by (rule hi)
      also have "\<dots> \<le> 2 ^ 1023" using 1 by (intro power_increasing) simp_all
      finally have b: "n < 2 ^ 1023" .
      from a b show ?thesis by simp
    next
      case 2
      have "(2::nat) ^ 1024 \<le> 2 ^ (52 + e)" using 2 by (intro power_increasing) simp_all
      also have "\<dots> = 2 ^ 52 * 2 ^ e" by (simp add: power_add)
      also have "\<dots> \<le> m * 2 ^ e" using m_lo q_lo by (intro mult_right_mono) simp_all
      finally have a: "2 ^ 1024 \<le> m * 2 ^ e" .
      have "(2::nat) ^ 1024 \<le> 2 ^ (52 + e)" using 2 by (intro power_increasing) simp_all
      also have "\<dots> \<le> n" by (rule lo)
      finally have b: "2 ^ 1024 \<le> n" .
      from a b show ?thesis by simp
    next
      case 3
      have s1: "2 ^ 1024 \<le> m * 2 ^ e \<longleftrightarrow> 2 ^ 53 \<le> m"
      proof -
        have "(2::nat) ^ 1024 = 2 ^ 53 * 2 ^ e" by (simp add: 3 flip: power_add)
        then show ?thesis by simp
      qed
      have s2: "2 ^ 53 \<le> m \<longleftrightarrow> q = 2 ^ 53 - 1 \<and> 2 ^ 970 \<le> r"
      proof (cases "q = 2 ^ 53 - 1")
        case True
        then have "odd q" by simp
        then have "m = (if 2 ^ 970 \<le> r then q + 1 else q)" by (auto simp: m_def 3)
        then show ?thesis using True by simp
      next
        case False
        with q_hi have "q + 1 < 2 ^ 53" by simp
        with m_hi have "m < 2 ^ 53" by simp
        with False show ?thesis by simp
      qed
      have s3: "2 ^ 1024 - 2 ^ 970 \<le> n \<longleftrightarrow> q = 2 ^ 53 - 1 \<and> 2 ^ 970 \<le> r"
      proof (cases "q = 2 ^ 53 - 1")
        case True
        have "n = (2 ^ 53 - 1) * 2 ^ 971 + r" using n_eq by (simp add: True 3)
        then show ?thesis using True by simp
      next
        case False
        with q_hi have "q + 1 \<le> 2 ^ 53 - 1" by simp
        then have "(q + 1) * 2 ^ 971 \<le> (2 ^ 53 - 1) * 2 ^ 971" by (rule mult_right_mono) simp
        moreover have "n < (q + 1) * 2 ^ 971" using n_eq r_lt by (simp add: 3)
        ultimately have "n < (2 ^ 53 - 1) * 2 ^ 971" by simp
        with False show ?thesis by simp
      qed
      from s1 s2 s3 show ?thesis by simp
    qed
  qed
  show ?thesis unfolding unfold using key by (simp split: if_splits)
qed

lemma numberOfNat_overflow: "numberOfNat n = Infinity \<longleftrightarrow> overflowBound \<le> n"
  unfolding overflowBound_def by (rule numberOfNat_Infinity_iff)

section \<open>Facts about the amount parser\<close>

lemma cleanedOf_Nil [simp]: "cleanedOf [] = []"
  by (simp add: cleanedOf_def)

lemma parseKrwAmount_eq:
  "parseKrwAmount raw =
     (if allDigits (cleanedOf raw)
      then (case numberOfNat (digitsValue 0 (cleanedOf raw)) of Num v \<Rightarrow> Some v | Infinity \<Rightarrow> None)
      else None)"
  by (cases "raw = []") (simp_all add: parseKrwAmount_def parseInt10_def allDigits_def)

lemma parseKrwAmount_Some_iff:
  "parseKrwAmount raw = Some v \<longleftrightarrow>
     allDigits (cleanedOf raw) \<and> numberOfNat (digitsValue 0 (cleanedOf raw)) = Num v"
  by (simp add: parseKrwAmount_eq split: jsnumber.splits)

lemma parseKrwAmount_None_iff:
  "parseKrwAmount raw = None \<longleftrightarrow>
     \<not> allDigits (cleanedOf raw) \<or> overflowBound \<le> digitsValue 0 (cleanedOf raw)"
  by (cases "numberOfNat (digitsValue 0 (cleanedOf raw))")
     (simp_all add: parseKrwAmount_eq flip: numberOfNat_overflow)

lemma parseKrwAmount_nonneg: "parseKrwAmount raw = Some v \<Longrightarrow> 0 \<le> v"
  by (auto simp: parseKrwAmount_Some_iff dest: numberOfNat_nonneg)

lemma parseKrwAmountI:
  "cleanedOf raw = c \<Longrightarrow> allDigits c \<Longrightarrow> digitsValue 0 c = n \<Longrightarrow> n \<le> 2 ^ 53 \<Longrightarrow>
   parseKrwAmount raw = Some (int n)"
  by (simp add: parseKrwAmount_Some_iff numberOfNat_exact)

lemmas char_defs = js_def cleanedOf_def isSeparator_def isWhiteSpace_def allDigits_def isDigit_def
  digitVal_def

lemma parse_dot: "parseKrwAmount (js ''50.000'') = Some 50000"
  by (rule parseKrwAmountI [where n = 50000 and c = "js ''50000''", simplified]) (simp_all add: char_defs)

lemma parse_comma: "parseKrwAmount (js ''50,000'') = Some 50000"
  by (rule parseKrwAmountI [where n = 50000 and c = "js ''50000''", simplified]) (simp_all add: char_defs)

lemma parse_space: "parseKrwAmount (js ''50 000'') = Some 50000"
  by (rule parseKrwAmountI [where n = 50000 and c = "js ''50000''", simplified]) (simp_all add: char_defs)

lemma parse_underscore: "parseKrwAmount (js ''50_000'') = Some 50000"
  by (rule parseKrwAmountI [where n = 50000 and c = "js ''50000''", simplified]) (simp_all add: char_defs)

lemma parse_plain: "parseKrwAmount (js ''50000'') = Some 50000"
  by (rule parseKrwAmountI [where n = 50000 and c = "js ''50000''", simplified]) (simp_all add: char_defs)

lemma parse_abc: "parseKrwAmount (js ''abc'') = None"
  by (simp add: parseKrwAmount_None_iff char_defs)

lemma parse_12a: "parseKrwAmount (js ''12a'') = None"
  by (simp add: parseKrwAmount_None_iff char_defs)

lemma parse_empty: "parseKrwAmount (js '''') = None"
  by (simp add: parseKrwAmount_None_iff char_defs)

lemma digitsValue_nines: "digitsValue acc (replicate n 0x39) = (acc + 1) * 10 ^ n - 1"
proof (induction n arbitrary: acc)
  case 0
  then show ?case by simp
next
  case (Suc n)
  have "digitsValue acc (replicate (Suc n) 0x39) = digitsValue (10 * acc + 9) (replicate n 0x39)"
    by (simp add: digitVal_def)
  also have "\<dots> = (10 * acc + 9 + 1) * 10 ^ n - 1" by (rule Suc.IH)
  also have "\<dots> = (acc + 1) * 10 ^ Suc n - 1" by (simp add: algebra_simps)
  finally show ?case .
qed

lemma cleanedOf_nines: "cleanedOf (replicate n 0x39) = replicate n 0x39"
  by (simp add: cleanedOf_def isSeparator_def isWhiteSpace_def)

lemma allDigits_nines: "0 < n \<Longrightarrow> allDigits (replicate n 0x39)"
  by (simp add: allDigits_def isDigit_def list_all_iff)

lemma parse_tabbed: "parseKrwAmount tabbedAmount = Some 12"
  by (rule parseKrwAmountI [where n = 12 and c = "js ''12''", simplified])
     (simp_all add: char_defs tabbedAmount_def)

lemma specParse_tabbed: "specParse tabbedAmount = None"
  by (simp add: specParse_def char_defs tabbedAmount_def)

lemma bitLength_54: "bitLength 9007199254740993 = 54"
proof -
  have "53 < bitLength 9007199254740993" by (rule bitLength_ge) simp
  moreover have "bitLength 9007199254740993 \<le> 54" by (rule bitLength_le) simp
  ultimately show ?thesis by simp
qed

lemma parse_2p53: "parseKrwAmount (js ''9007199254740993'') = Some 9007199254740992"
proof -
  have "numberOfNat 9007199254740993 = Num 9007199254740992"
    by (simp add: numberOfNat_def bitLength_54)
  moreover have "cleanedOf (js ''9007199254740993'') = js ''9007199254740993''"
    by (simp add: char_defs)
  moreover have "allDigits (js ''9007199254740993'')" by (simp add: char_defs)
  moreover have "digitsValue 0 (js ''9007199254740993'') = 9007199254740993" by (simp add: char_defs)
  ultimately show ?thesis by (simp add: parseKrwAmount_Some_iff)
qed
lemma specParse_2p53: "specParse (js ''9007199254740993'') = Some 9007199254740993"
  by (simp add: specParse_def char_defs)

lemma parse_nines: "parseKrwAmount (replicate 309 0x39) = None"
  by (simp add: parseKrwAmount_None_iff cleanedOf_nines digitsValue_nines overflowBound_def)

lemma specParse_nines: "specParse (replicate 309 0x39) = Some (10 ^ 309 - 1)"
proof -
  have "filter (\<lambda>c. c \<noteq> 0x2E \<and> c \<noteq> 0x2C \<and> c \<noteq> 0x20 \<and> c \<noteq> 0x5F) (replicate 309 (0x39 :: jschar)) = replicate 309 0x39"
    by simp
  moreover have "list_all isDigit (replicate 309 0x39)" by (simp add: isDigit_def list_all_iff)
  ultimately show ?thesis by (simp add: specParse_def digitsValue_nines)
qed

section \<open>Facts about the allow-list, the notifications and the rounding\<close>

lemma users_distinct: "js ''615764917'' \<noteq> js ''499127006''"
  by (simp add: js_def)

lemma allowed_cases:
  "userId \<in> set ALLOWED_USERS \<longleftrightarrow> userId = js ''615764917'' \<or> userId = js ''499127006''"
  by (auto simp: ALLOWED_USERS_def)

lemma otherUser_first: "otherUser (js ''615764917'') = Some (js ''499127006'')"
  using users_distinct by (simp add: otherUser_def ALLOWED_USERS_def)

lemma otherUser_second: "otherUser (js ''499127006'') = Some (js ''615764917'')"
  using users_distinct by (simp add: otherUser_def ALLOWED_USERS_def)

lemma otherUser_allowed:
  assumes "userId \<in> set ALLOWED_USERS"
  obtains other where "otherUser userId = Some other" "other \<in> set ALLOWED_USERS"
    "other \<noteq> userId" "otherUser other = Some userId"
  using assms users_distinct
  by (auto simp: allowed_cases otherUser_first otherUser_second)

lemma otherUser_Some_neq: "otherUser userId = Some other \<Longrightarrow> other \<noteq> userId \<and> other \<in> set ALLOWED_USERS"
  by (auto simp: otherUser_def ALLOWED_USERS_def split: if_splits)

lemma notifyOthers_allowed:
  assumes "otherUser userId = Some other" "userId \<in> set ALLOWED_USERS"
  shows "notifyOthers ALLOWED_USERS userId mk env k = [SendMessage other (mk (new_Date env k))]"
  using assms users_distinct
  by (auto simp: allowed_cases otherUser_first otherUser_second ALLOWED_USERS_def)

lemma Math_round_half: "Math_round (of_int T / 2) = (T + 1) div 2"
proof -
  have "(of_int T / 2 + 1 / 2 :: rat) = of_int (T + 1) / of_int 2" by (simp add: field_simps)
  then show ?thesis unfolding Math_round_def by (simp only: floor_divide_of_int_eq)
qed

lemma Math_round_even: "even T \<Longrightarrow> Math_round (of_int T / 2) + Math_round (of_int T / 2) = T"
  unfolding Math_round_half by presburger

lemma resetSession_eq: "resetSession s = \<lparr>s_name = None, s_mode = None\<rparr>"
  by (simp add: resetSession_def)

lemma reset_found:
  "sessions st userId = Some s \<Longrightarrow>
   Session_findOneAndUpdate False userId resetSession st =
     st\<lparr>sessions := (sessions st)(userId \<mapsto> \<lparr>s_name = None, s_mode = None\<rparr>)\<rparr>"
  by (simp add: Session_findOneAndUpdate_def resetSession_eq)

section \<open>The branches of the text handler\<close>

lemma on_text_idle:
  "sessions st userId = None \<or> (\<exists>s. sessions st userId = Some s \<and> s_name s = None) \<Longrightarrow>
   on_text env userId text st = (st, [])"
  by (auto simp: on_text_def)

lemma on_text_invalid:
  "sessions st userId = Some session \<Longrightarrow> s_name session = Some name \<Longrightarrow> textAmount text = None \<Longrightarrow>
   on_text env userId text st = (st, [Reply InvalidAmount])"
  by (simp add: on_text_def)

lemma textAmount_nonneg: "textAmount text = Some T \<Longrightarrow> 0 \<le> T"
  by (auto simp: textAmount_def split: list.splits dest: parseKrwAmount_nonneg)

lemma on_text_Umumiy:
  assumes "sessions st userId = Some session" "s_name session = Some Umumiy"
    "textAmount text = Some T"
  shows "on_text env userId text st =
    (st\<lparr>entries := entries st @
          [\<lparr>e_id = nanoid env 0, e_name = Sheyx, e_amount = Math_round (of_int T / 2),
            e_note = textNote text, e_time = new_Date env 0\<rparr>,
           \<lparr>e_id = nanoid env 1, e_name = Polvon, e_amount = Math_round (of_int T / 2),
            e_note = textNote text, e_time = new_Date env 1\<rparr>],
        sessions := (sessions st)(userId \<mapsto> \<lparr>s_name = None, s_mode = None\<rparr>)\<rparr>,
     Reply (UmumiyRecorded T (Math_round (of_int T / 2))) #
     notifyOthers ALLOWED_USERS userId
       (UmumiySplitNotice T (Math_round (of_int T / 2)) (textNote text)) env 2)"
  using assms
  by (simp add: on_text_def Let_def Entry_insertMany_def Session_findOneAndUpdate_def
      resetSession_eq newEntry_def enumerate_eq_zip upt_rec)

lemma on_text_Expenses:
  assumes "sessions st userId = Some session" "s_name session = Some (Person who)"
    "s_mode session = Some Expenses" "textAmount text = Some T"
  shows "on_text env userId text st =
    (st\<lparr>entries := entries st @
          [\<lparr>e_id = nanoid env 0, e_name = who, e_amount = Math_round (of_int T / 2),
            e_note = textNote text, e_time = new_Date env 0\<rparr>],
        sessions := (sessions st)(userId \<mapsto> \<lparr>s_name = None, s_mode = None\<rparr>)\<rparr>,
     Reply (ExpensesRecorded who T (Math_round (of_int T / 2))) #
     notifyOthers ALLOWED_USERS userId
       (ExpensesNotice who (Math_round (of_int T / 2)) T (textNote text)) env 1)"
  using assms
  by (simp add: on_text_def Let_def Entry_save_def Session_findOneAndUpdate_def
      resetSession_eq newEntry_def)

lemma on_text_Debt:
  assumes "sessions st userId = Some session" "s_name session = Some (Person who)"
    "s_mode session \<noteq> Some Expenses" "textAmount text = Some T"
  shows "on_text env userId text st =
    (st\<lparr>entries := entries st @
          [\<lparr>e_id = nanoid env 0, e_name = who, e_amount = T,
            e_note = textNote text, e_time = new_Date env 0\<rparr>],
        sessions := (sessions st)(userId \<mapsto> \<lparr>s_name = None, s_mode = None\<rparr>)\<rparr>,
     Reply (DebtRecorded who T) #
     notifyOthers ALLOWED_USERS userId (DebtNotice who T (textNote text)) env 1)"
  using assms
  by (simp add: on_text_def Let_def Entry_save_def Session_findOneAndUpdate_def
      resetSession_eq newEntry_def)

lemma choose_person_session:
  "sessions (fst (choose_person who userId st)) userId =
     Some \<lparr>s_name = Some (Person who), s_mode = None\<rparr>"
  by (simp add: choose_person_def Session_findOneAndUpdate_def split: option.splits)

lemma choose_person_entries: "entries (fst (choose_person who userId st)) = entries st"
  by (simp add: choose_person_def Session_findOneAndUpdate_def split: option.splits)

lemma clear_cmd_prompt:
  assumes "requester \<in> set ALLOWED_USERS"
    and "SendMessage approver (ClearApprovalRequest username) \<in>
           set (snd (clear_cmd ADMIN_ID requester username st))"
  shows "otherUser requester = Some approver"
  using assms
  by (auto simp: clear_cmd_def Let_def split: option.splits)

lemma findOne_None_iff: "Entry_findOne entryId st = None \<longleftrightarrow> entryId \<notin> e_id ` set (entries st)"
  by (auto simp: Entry_findOne_def find_None_iff)

text \<open>
  The selection steps establish the states the text handler distinguishes, and touch no
  entry.
\<close>

lemma add_cmd_session:
  "sessions (fst (add_cmd userId st)) userId = Some \<lparr>s_name = None, s_mode = None\<rparr>"
  by (simp add: add_cmd_def Session_findOneAndUpdate_def resetSession_eq split: option.splits)

lemma choose_Umumiy_session:
  "sessions (fst (choose_Umumiy userId st)) userId = Some \<lparr>s_name = Some Umumiy, s_mode = None\<rparr>"
  by (simp add: choose_Umumiy_def Session_findOneAndUpdate_def split: option.splits)

lemma type_expenses_session:
  "sessions (fst (type_expenses userId (fst (choose_person who userId st)))) userId =
     Some \<lparr>s_name = Some (Person who), s_mode = Some Expenses\<rparr>"
  by (simp add: type_expenses_def choose_person_def Session_findOneAndUpdate_def
      split: option.splits)

lemma type_debt_session:
  "sessions (fst (type_debt userId (fst (choose_person who userId st)))) userId =
     Some \<lparr>s_name = Some (Person who), s_mode = Some Debt\<rparr>"
  by (simp add: type_debt_def choose_person_def Session_findOneAndUpdate_def
      split: option.splits)

lemma cancel_cmd_session:
  "sessions st userId = Some s \<Longrightarrow>
   sessions (fst (cancel_cmd userId st)) userId = Some \<lparr>s_name = None, s_mode = None\<rparr>"
  by (simp add: cancel_cmd_def Session_findOneAndUpdate_def resetSession_eq)

lemma choose_cancel_session:
  "sessions st userId = Some s \<Longrightarrow>
   sessions (fst (choose_cancel userId st)) userId = Some \<lparr>s_name = None, s_mode = None\<rparr>"
  by (simp add: choose_cancel_def Session_findOneAndUpdate_def resetSession_eq)

lemma selection_keeps_entries:
  "entries (fst (add_cmd userId st)) = entries st"
  "entries (fst (choose_Umumiy userId st)) = entries st"
  "entries (fst (type_expenses userId st)) = entries st"
  "entries (fst (type_debt userId st)) = entries st"
  "entries (fst (cancel_cmd userId st)) = entries st"
  "entries (fst (choose_cancel userId st)) = entries st"
  by (simp_all add: add_cmd_def choose_Umumiy_def type_expenses_def type_debt_def cancel_cmd_def
      choose_cancel_def Session_findOneAndUpdate_def split: option.splits)

section \<open>The sample data evaluated\<close>

lemmas text_defs = textParts_def trim_def js_def isWhiteSpace_def

lemma parts_snacks: "textParts (js ''50000 snacks'') = [js ''50000'', js ''snacks'']"
  by (simp add: text_defs)

lemma amount_snacks: "textAmount (js ''50000 snacks'') = Some 50000"
  by (simp add: textAmount_def parts_snacks parse_plain)

lemma note_snacks: "textNote (js ''50000 snacks'') = js ''snacks''"
  by (simp add: textNote_def parts_snacks)

lemma parts_lunch: "textParts (js ''50.000 lunch'') = [js ''50.000'', js ''lunch'']"
  by (simp add: text_defs)

lemma amount_lunch: "textAmount (js ''50.000 lunch'') = Some 50000"
  by (simp add: textAmount_def parts_lunch parse_dot)

lemma note_lunch: "textNote (js ''50.000 lunch'') = js ''lunch''"
  by (simp add: textNote_def parts_lunch)

lemma parts_borrowed: "textParts (js ''30.000 borrowed'') = [js ''30.000'', js ''borrowed'']"
  by (simp add: text_defs)

lemma parse_30: "parseKrwAmount (js ''30.000'') = Some 30000"
  by (rule parseKrwAmountI [where n = 30000 and c = "js ''30000''", simplified]) (simp_all add: char_defs)

lemma amount_borrowed: "textAmount (js ''30.000 borrowed'') = Some 30000"
  by (simp add: textAmount_def parts_borrowed parse_30)

lemma note_borrowed: "textNote (js ''30.000 borrowed'') = js ''borrowed''"
  by (simp add: textNote_def parts_borrowed)

lemma parts_abc: "textParts (js ''abc snacks'') = [js ''abc'', js ''snacks'']"
  by (simp add: text_defs)

lemma amount_abc: "textAmount (js ''abc snacks'') = None"
  by (simp add: textAmount_def parts_abc parse_abc)

lemma parts_twoLine: "textParts twoLineText = [twoLineText]"
  by (simp add: text_defs twoLineText_def)

lemma amount_twoLine: "textAmount twoLineText = None"
  unfolding textAmount_def parts_twoLine
  by (simp add: parseKrwAmount_None_iff twoLineText_def char_defs)

lemma specToken_twoLine: "specFirstToken twoLineText = js ''100''"
  by (simp add: specFirstToken_def twoLineText_def js_def isWhiteSpace_def)

lemma specToken_snacks: "specFirstToken (js ''50000 snacks'') = js ''50000''"
  by (simp add: specFirstToken_def js_def isWhiteSpace_def)

lemma parse_100: "parseKrwAmount (js ''100'') = Some 100"
  by (rule parseKrwAmountI [where n = 100 and c = "js ''100''", simplified]) (simp_all add: char_defs)

lemma userA_allowed: "userA \<in> set ALLOWED_USERS"
  by (simp add: userA_def ALLOWED_USERS_def)

lemma userB_allowed: "userB \<in> set ALLOWED_USERS"
  by (simp add: userB_def ALLOWED_USERS_def)

lemma stranger_not_allowed: "stranger \<notin> set ALLOWED_USERS"
  by (simp add: stranger_def ALLOWED_USERS_def js_def)

lemma otherUser_A: "otherUser userA = Some userB"
  by (simp add: userA_def userB_def otherUser_first)

lemma otherUser_B: "otherUser userB = Some userA"
  by (simp add: userA_def userB_def otherUser_second)

lemma sampleStore_session:
  "sessions (sampleStore name mode) userA = Some \<lparr>s_name = name, s_mode = mode\<rparr>"
  by (simp add: sampleStore_def)

lemma sampleStore_entries: "entries (sampleStore name mode) = [sampleEntry]"
  by (simp add: sampleStore_def)

lemma delete_parts: "split_on 0x20 (js ''/delete abc123'') = [js ''/delete'', js ''abc123'']"
  by (simp add: js_def)

lemma delete_parts_missing: "split_on 0x20 (js ''/delete zzz999'') = [js ''/delete'', js ''zzz999'']"
  by (simp add: js_def)

lemma specToken_dotLine: "specFirstToken dotLineText = js ''.''"
  by (simp add: specFirstToken_def dotLineText_def js_def isWhiteSpace_def)

lemma parse_lone_dot: "parseKrwAmount (js ''.'') = None"
  by (simp add: parseKrwAmount_None_iff char_defs)

lemma parts_dotLine: "textParts dotLineText = [js ''.'' @ [0x0A] @ js ''5'', js ''x'']"
  by (simp add: text_defs dotLineText_def)

lemma parse_dotLine_part: "parseKrwAmount (js ''.'' @ [0x0A] @ js ''5'') = Some 5"
proof -
  have "cleanedOf (js ''.'' @ [0x0A] @ js ''5'') = js ''5''" by (simp add: char_defs)
  moreover have "allDigits (js ''5'')" by (simp add: char_defs)
  moreover have "digitsValue 0 (js ''5'') = 5" by (simp add: char_defs)
  moreover have "(5 :: nat) \<le> 2 ^ 53" by simp
  ultimately have "parseKrwAmount (js ''.'' @ [0x0A] @ js ''5'') = Some (int 5)"
    by (rule parseKrwAmountI)
  then show ?thesis by simp
qed

lemma amount_dotLine: "textAmount dotLineText = Some 5"
  unfolding textAmount_def parts_dotLine using parse_dotLine_part by simp

lemma note_dotLine: "textNote dotLineText = js ''x''"
  unfolding textNote_def parts_dotLine by simp

section \<open>The claims\<close>

subsection \<open>C1: committing a split\<close>

text \<open>
  C1, as the code has it. When the sender's session names the split target and the first
  space-delimited part of the trimmed message parses to \<open>T\<close>, then \<open>T\<close> is not
  negative and the handler appends exactly two entries, one for Sheyx and one for Polvon in
  that order, each with the amount \<^verbatim>\<open>Math.round(T / 2)\<close> and the same note, and sets
  the session back to idle. Each entry's time is its own reading of the clock, made when
  the entry is built: the first reading for Sheyx, the second for Polvon. The share is
  \<open>(T + 1) div 2\<close>; for \<open>T = 50000\<close> it is 25000, and for an even \<open>T\<close> the two shares
  add up to \<open>T\<close>.
\<close>

theorem split_commit:
  assumes "sessions st userId = Some session" and "s_name session = Some Umumiy"
    and "textAmount text = Some T"
  shows "0 \<le> T \<and>
    fst (on_text env userId text st) =
      st\<lparr>entries := entries st @
            [\<lparr>e_id = nanoid env 0, e_name = Sheyx, e_amount = Math_round (of_int T / 2),
              e_note = textNote text, e_time = new_Date env 0\<rparr>,
             \<lparr>e_id = nanoid env 1, e_name = Polvon, e_amount = Math_round (of_int T / 2),
              e_note = textNote text, e_time = new_Date env 1\<rparr>],
          sessions := (sessions st)(userId \<mapsto> \<lparr>s_name = None, s_mode = None\<rparr>)\<rparr> \<and>
    Math_round (of_int T / 2) = (T + 1) div 2 \<and>
    (T = 50000 \<longrightarrow> Math_round (of_int T / 2) = 25000) \<and>
    (even T \<longrightarrow> Math_round (of_int T / 2) + Math_round (of_int T / 2) = T)"
proof -
  have "0 \<le> T" using assms(3) by (rule textAmount_nonneg)
  moreover have "T = 50000 \<longrightarrow> Math_round (of_int T / 2) = 25000"
    using Math_round_half [of T] by auto
  moreover have "even T \<longrightarrow> Math_round (of_int T / 2) + Math_round (of_int T / 2) = T"
    by (simp add: Math_round_even)
  ultimately show ?thesis
    by (simp add: on_text_Umumiy [OF assms] Math_round_half)
qed

text \<open>
  The scenario of the specification: the split target chosen, then \<^verbatim>\<open>50000 snacks\<close>.
\<close>

theorem split_commit_witness:
  "sessions (sampleStore (Some Umumiy) None) userA = Some \<lparr>s_name = Some Umumiy, s_mode = None\<rparr> \<and>
   textAmount (js ''50000 snacks'') = Some 50000 \<and>
   entries (fst (on_text sampleEffects userA (js ''50000 snacks'') (sampleStore (Some Umumiy) None))) =
     [sampleEntry,
      \<lparr>e_id = sampleId 0, e_name = Sheyx, e_amount = 25000, e_note = js ''snacks'',
       e_time = sampleClock 0\<rparr>,
      \<lparr>e_id = sampleId 1, e_name = Polvon, e_amount = 25000, e_note = js ''snacks'',
       e_time = sampleClock 1\<rparr>] \<and>
   sessions (fst (on_text sampleEffects userA (js ''50000 snacks'') (sampleStore (Some Umumiy) None))) userA =
     Some \<lparr>s_name = None, s_mode = None\<rparr> \<and>
   even (50000 :: int) \<and> (25000 :: int) + 25000 = 50000"
proof -
  have h1: "sessions (sampleStore (Some Umumiy) None) userA = Some \<lparr>s_name = Some Umumiy, s_mode = None\<rparr>"
    by (rule sampleStore_session)
  have h2: "s_name \<lparr>s_name = Some Umumiy, s_mode = None\<rparr> = Some Umumiy" by simp
  note w = split_commit [OF h1 h2 amount_snacks, of sampleEffects]
  from w have "fst (on_text sampleEffects userA (js ''50000 snacks'') (sampleStore (Some Umumiy) None)) =
      (sampleStore (Some Umumiy) None)\<lparr>entries := entries (sampleStore (Some Umumiy) None) @
            [\<lparr>e_id = nanoid sampleEffects 0, e_name = Sheyx, e_amount = Math_round (of_int 50000 / 2),
              e_note = textNote (js ''50000 snacks''), e_time = new_Date sampleEffects 0\<rparr>,
             \<lparr>e_id = nanoid sampleEffects 1, e_name = Polvon, e_amount = Math_round (of_int 50000 / 2),
              e_note = textNote (js ''50000 snacks''), e_time = new_Date sampleEffects 1\<rparr>],
          sessions := (sessions (sampleStore (Some Umumiy) None))(userA \<mapsto> \<lparr>s_name = None, s_mode = None\<rparr>)\<rparr>"
    by blast
  moreover from w have "Math_round (of_int 50000 / 2) = 25000" by blast
  ultimately show ?thesis
    using h1 amount_snacks
    by (simp add: note_snacks sampleStore_entries sampleEffects_def)
qed

text \<open>
  Where the code departs from C1 as it is worded. The two entries of one split do not
  share a timestamp when the clock advances between the two readings: here they are one
  millisecond apart. And the amount is not read from the first whitespace-delimited token:
  the message is cut at spaces only, so for the two-line message \<^verbatim>\<open>100\<close>, line feed,
  \<^verbatim>\<open>lunch\<close>, whose first whitespace-delimited token parses to 100, the handler answers
  with the invalid-amount guidance and stores nothing.
\<close>

theorem split_commit_counterexample:
  "sessions (sampleStore (Some Umumiy) None) userA = Some \<lparr>s_name = Some Umumiy, s_mode = None\<rparr> \<and>
   parseKrwAmount (specFirstToken (js ''50000 snacks'')) = Some 50000 \<and>
   map e_time (entries (fst (on_text sampleEffects userA (js ''50000 snacks'')
       (sampleStore (Some Umumiy) None)))) = [1690000000000, 1700000000000, 1700000000001] \<and>
   parseKrwAmount (specFirstToken twoLineText) = Some 100 \<and>
   on_text sampleEffects userA twoLineText (sampleStore (Some Umumiy) None) =
     (sampleStore (Some Umumiy) None, [Reply InvalidAmount])"
proof -
  have h1: "sessions (sampleStore (Some Umumiy) None) userA = Some \<lparr>s_name = Some Umumiy, s_mode = None\<rparr>"
    by (rule sampleStore_session)
  have h2: "s_name \<lparr>s_name = Some Umumiy, s_mode = None\<rparr> = Some Umumiy" by simp
  have a: "map e_time (entries (fst (on_text sampleEffects userA (js ''50000 snacks'')
       (sampleStore (Some Umumiy) None)))) = [1690000000000, 1700000000000, 1700000000001]"
    by (simp add: on_text_Umumiy [OF h1 h2 amount_snacks] sampleStore_entries sampleEffects_def
        sampleClock_def sampleEntry_def)
  have b: "on_text sampleEffects userA twoLineText (sampleStore (Some Umumiy) None) =
     (sampleStore (Some Umumiy) None, [Reply InvalidAmount])"
    by (rule on_text_invalid [OF h1 h2 amount_twoLine])
  show ?thesis
    using h1 a b by (simp add: specToken_snacks specToken_twoLine parse_plain parse_100)
qed

subsection \<open>C2: the amount parser\<close>

text \<open>
  C2, as the code has it. The parser removes every period, comma, underscore and
  white-space character (the space, and also tab, line breaks and the other characters of
  \<^verbatim>\<open>\s\<close>). It fails exactly when what remains is empty, or holds a character that is
  not a decimal digit, or writes an integer of at least \<open>2 ^ 1024 - 2 ^ 970\<close>, whose
  double is infinite. When it succeeds the result is not negative and is the double
  nearest to the integer written, which is that integer itself whenever it is at most
  \<open>2 ^ 53\<close>. The five spellings of 50000 parse to 50000, and \<^verbatim>\<open>abc\<close>, \<^verbatim>\<open>12a\<close>
  and the empty string fail.
\<close>

theorem parseKrwAmount_contract:
  "cleanedOf raw = filter (\<lambda>c. \<not> (c = 0x2E \<or> c = 0x2C \<or> isWhiteSpace c \<or> c = 0x5F)) raw \<and>
   (parseKrwAmount raw = None \<longleftrightarrow>
      \<not> allDigits (cleanedOf raw) \<or> overflowBound \<le> digitsValue 0 (cleanedOf raw)) \<and>
   (\<forall>v. parseKrwAmount raw = Some v \<longrightarrow>
      0 \<le> v \<and> numberOfNat (digitsValue 0 (cleanedOf raw)) = Num v) \<and>
   (allDigits (cleanedOf raw) \<and> digitsValue 0 (cleanedOf raw) \<le> 2 ^ 53 \<longrightarrow>
      parseKrwAmount raw = Some (int (digitsValue 0 (cleanedOf raw)))) \<and>
   parseKrwAmount (js ''50.000'') = Some 50000 \<and>
   parseKrwAmount (js ''50,000'') = Some 50000 \<and>
   parseKrwAmount (js ''50 000'') = Some 50000 \<and>
   parseKrwAmount (js ''50_000'') = Some 50000 \<and>
   parseKrwAmount (js ''50000'') = Some 50000 \<and>
   parseKrwAmount (js ''abc'') = None \<and>
   parseKrwAmount (js ''12a'') = None \<and>
   parseKrwAmount (js '''') = None"
proof -
  have "cleanedOf raw = filter (\<lambda>c. \<not> (c = 0x2E \<or> c = 0x2C \<or> isWhiteSpace c \<or> c = 0x5F)) raw"
    by (simp add: cleanedOf_def isSeparator_def)
  moreover have "\<forall>v. parseKrwAmount raw = Some v \<longrightarrow>
      0 \<le> v \<and> numberOfNat (digitsValue 0 (cleanedOf raw)) = Num v"
    by (auto simp: parseKrwAmount_Some_iff dest: numberOfNat_nonneg)
  moreover have "allDigits (cleanedOf raw) \<and> digitsValue 0 (cleanedOf raw) \<le> 2 ^ 53 \<longrightarrow>
      parseKrwAmount raw = Some (int (digitsValue 0 (cleanedOf raw)))"
    by (auto intro: parseKrwAmountI)
  ultimately show ?thesis
    using parseKrwAmount_None_iff [of raw]
    by (simp only: parse_dot parse_comma parse_space parse_underscore parse_plain parse_abc
        parse_12a parse_empty simp_thms)
qed

theorem parseKrwAmount_contract_witness:
  "allDigits (cleanedOf (js ''50.000'')) \<and>
   digitsValue 0 (cleanedOf (js ''50.000'')) = 50000 \<and>
   (50000 :: nat) \<le> 2 ^ 53 \<and>
   parseKrwAmount (js ''50.000'') = Some 50000 \<and>
   numberOfNat 50000 = Num 50000"
proof -
  have c: "cleanedOf (js ''50.000'') = js ''50000''" by (simp add: char_defs)
  have d: "allDigits (js ''50000'')" by (simp add: char_defs)
  have v: "digitsValue 0 (js ''50000'') = 50000" by (simp add: char_defs)
  note w = parseKrwAmount_contract [of "js ''50.000''"]
  from w c d v have p: "parseKrwAmount (js ''50.000'') = Some (int 50000)" by simp
  with w c v have "numberOfNat 50000 = Num (int 50000)" by simp
  with p c d v show ?thesis by simp
qed

text \<open>
  Where the code departs from C2 as it is worded, against the parser of the
  specification's words: a tab between two digits is stripped, so the input parses;
  \<open>2 ^ 53 + 1\<close> comes back as \<open>2 ^ 53\<close>, not as the integer written; and 309 nines,
  all digits, are refused because their double is infinite.
\<close>

theorem parseKrwAmount_contract_counterexample:
  "parseKrwAmount tabbedAmount = Some 12 \<and> specParse tabbedAmount = None \<and>
   parseKrwAmount (js ''9007199254740993'') = Some 9007199254740992 \<and>
   specParse (js ''9007199254740993'') = Some 9007199254740993 \<and>
   parseKrwAmount (replicate 309 0x39) = None \<and>
   specParse (replicate 309 0x39) = Some (10 ^ 309 - 1)"
  by (simp only: parse_tabbed specParse_tabbed parse_2p53 specParse_2p53 parse_nines
      specParse_nines simp_thms)

subsection \<open>C3: committing an expense\<close>

text \<open>
  C3, as the code has it. When the sender's session names a participant, its mode is
  expenses, and the first space-delimited part of the trimmed message parses to \<open>T\<close>,
  then \<open>T\<close> is not negative and the handler appends exactly one entry: it is
  attributed to the chosen participant and its amount is \<^verbatim>\<open>Math.round(T / 2)\<close>, that
  is \<open>(T + 1) div 2\<close>. Nothing else is added to the ledger, so no entry is stored for
  the other participant.
\<close>

theorem expenses_commit:
  assumes "sessions st userId = Some session" and "s_name session = Some (Person who)"
    and "s_mode session = Some Expenses" and "textAmount text = Some T"
  shows "0 \<le> T \<and>
    fst (on_text env userId text st) =
      st\<lparr>entries := entries st @
            [\<lparr>e_id = nanoid env 0, e_name = who, e_amount = Math_round (of_int T / 2),
              e_note = textNote text, e_time = new_Date env 0\<rparr>],
          sessions := (sessions st)(userId \<mapsto> \<lparr>s_name = None, s_mode = None\<rparr>)\<rparr> \<and>
    Math_round (of_int T / 2) = (T + 1) div 2"
  using textAmount_nonneg [OF assms(4)]
  by (simp add: on_text_Expenses [OF assms] Math_round_half)

theorem expenses_commit_witness:
  "sessions (sampleStore (Some (Person Polvon)) (Some Expenses)) userA =
     Some \<lparr>s_name = Some (Person Polvon), s_mode = Some Expenses\<rparr> \<and>
   textAmount (js ''50.000 lunch'') = Some 50000 \<and>
   entries (fst (on_text sampleEffects userA (js ''50.000 lunch'')
       (sampleStore (Some (Person Polvon)) (Some Expenses)))) =
     [sampleEntry,
      \<lparr>e_id = sampleId 0, e_name = Polvon, e_amount = 25000, e_note = js ''lunch'',
       e_time = sampleClock 0\<rparr>]"
proof -
  have h1: "sessions (sampleStore (Some (Person Polvon)) (Some Expenses)) userA =
     Some \<lparr>s_name = Some (Person Polvon), s_mode = Some Expenses\<rparr>"
    by (rule sampleStore_session)
  have h2: "s_name \<lparr>s_name = Some (Person Polvon), s_mode = Some Expenses\<rparr> = Some (Person Polvon)"
    by simp
  have h3: "s_mode \<lparr>s_name = Some (Person Polvon), s_mode = Some Expenses\<rparr> = Some Expenses"
    by simp
  note w = expenses_commit [OF h1 h2 h3 amount_lunch, of sampleEffects]
  from w have "entries (fst (on_text sampleEffects userA (js ''50.000 lunch'')
       (sampleStore (Some (Person Polvon)) (Some Expenses)))) =
     entries (sampleStore (Some (Person Polvon)) (Some Expenses)) @
       [\<lparr>e_id = nanoid sampleEffects 0, e_name = Polvon, e_amount = (50000 + 1) div 2,
         e_note = textNote (js ''50.000 lunch''), e_time = new_Date sampleEffects 0\<rparr>]"
    by simp
  then show ?thesis
    using h1 amount_lunch by (simp add: note_lunch sampleStore_entries sampleEffects_def)
qed

text \<open>
  Where the code departs from C3 as it is worded. The amount is not read from the first
  whitespace-delimited token: the message is cut at spaces only. For the two-line message
  \<^verbatim>\<open>100\<close>, line feed, \<^verbatim>\<open>lunch\<close>, sent with Polvon and expenses chosen, that token
  parses to 100, yet the handler answers with the invalid-amount guidance and returns the
  store as it was, with no entry added.
\<close>

theorem expenses_commit_counterexample:
  "sessions (sampleStore (Some (Person Polvon)) (Some Expenses)) userA =
     Some \<lparr>s_name = Some (Person Polvon), s_mode = Some Expenses\<rparr> \<and>
   parseKrwAmount (specFirstToken twoLineText) = Some 100 \<and>
   on_text sampleEffects userA twoLineText (sampleStore (Some (Person Polvon)) (Some Expenses)) =
     (sampleStore (Some (Person Polvon)) (Some Expenses), [Reply InvalidAmount]) \<and>
   entries (sampleStore (Some (Person Polvon)) (Some Expenses)) = [sampleEntry]"
proof -
  have h1: "sessions (sampleStore (Some (Person Polvon)) (Some Expenses)) userA =
     Some \<lparr>s_name = Some (Person Polvon), s_mode = Some Expenses\<rparr>"
    by (rule sampleStore_session)
  have h2: "s_name \<lparr>s_name = Some (Person Polvon), s_mode = Some Expenses\<rparr> = Some (Person Polvon)"
    by simp
  have b: "on_text sampleEffects userA twoLineText (sampleStore (Some (Person Polvon)) (Some Expenses)) =
     (sampleStore (Some (Person Polvon)) (Some Expenses), [Reply InvalidAmount])"
    by (rule on_text_invalid [OF h1 h2 amount_twoLine])
  show ?thesis
    using h1 b by (simp add: specToken_twoLine parse_100 sampleStore_entries)
qed

subsection \<open>C4: an amount that does not parse\<close>

text \<open>
  C4, as the code has it. When the sender's session has a name set and the first
  space-delimited part of the trimmed message fails amount parsing, the handler replies
  with the invalid-amount guidance and nothing else, and the store it returns is the store
  it was given: session name, session mode and ledger are unchanged, so the same flow can
  be retried.
\<close>

theorem invalid_amount_keeps_state:
  assumes "sessions st userId = Some session" and "s_name session \<noteq> None"
    and "textAmount text = None"
  shows "on_text env userId text st = (st, [Reply InvalidAmount])"
proof -
  from assms(2) obtain name where "s_name session = Some name" by auto
  with assms(1) show ?thesis using assms(3) by (rule on_text_invalid)
qed

theorem invalid_amount_keeps_state_witness:
  "sessions (sampleStore (Some (Person Sheyx)) (Some Debt)) userA =
     Some \<lparr>s_name = Some (Person Sheyx), s_mode = Some Debt\<rparr> \<and>
   textAmount (js ''abc snacks'') = None \<and>
   on_text sampleEffects userA (js ''abc snacks'') (sampleStore (Some (Person Sheyx)) (Some Debt)) =
     (sampleStore (Some (Person Sheyx)) (Some Debt), [Reply InvalidAmount])"
proof -
  have h1: "sessions (sampleStore (Some (Person Sheyx)) (Some Debt)) userA =
     Some \<lparr>s_name = Some (Person Sheyx), s_mode = Some Debt\<rparr>"
    by (rule sampleStore_session)
  have h2: "s_name \<lparr>s_name = Some (Person Sheyx), s_mode = Some Debt\<rparr> \<noteq> None" by simp
  from invalid_amount_keeps_state [OF h1 h2 amount_abc, of sampleEffects] h1 amount_abc
  show ?thesis by simp
qed

text \<open>
  Where the code departs from C4 as it is worded. The part handed to the parser ends at
  the first space, not at the first white space. For the message made of a lone period, a
  line feed and \<^verbatim>\<open>5 x\<close>, sent with Sheyx and debt chosen, the first
  whitespace-delimited token is the period, which fails amount parsing; the handler's
  first part is the period, the line feed and the 5, which the parser cleans to 5. So the
  handler stores an entry of 5 with the note \<^verbatim>\<open>x\<close>, sets the session back to idle and
  sends the debt confirmation and notice.
\<close>

theorem invalid_amount_keeps_state_counterexample:
  "sessions (sampleStore (Some (Person Sheyx)) (Some Debt)) userA =
     Some \<lparr>s_name = Some (Person Sheyx), s_mode = Some Debt\<rparr> \<and>
   entries (sampleStore (Some (Person Sheyx)) (Some Debt)) = [sampleEntry] \<and>
   parseKrwAmount (specFirstToken dotLineText) = None \<and>
   entries (fst (on_text sampleEffects userA dotLineText (sampleStore (Some (Person Sheyx)) (Some Debt)))) =
     [sampleEntry,
      \<lparr>e_id = sampleId 0, e_name = Sheyx, e_amount = 5, e_note = js ''x'',
       e_time = sampleClock 0\<rparr>] \<and>
   sessions (fst (on_text sampleEffects userA dotLineText (sampleStore (Some (Person Sheyx)) (Some Debt))))
       userA = Some \<lparr>s_name = None, s_mode = None\<rparr> \<and>
   snd (on_text sampleEffects userA dotLineText (sampleStore (Some (Person Sheyx)) (Some Debt))) =
     [Reply (DebtRecorded Sheyx 5),
      SendMessage userB (DebtNotice Sheyx 5 (js ''x'') (sampleClock 1))]"
proof -
  have h1: "sessions (sampleStore (Some (Person Sheyx)) (Some Debt)) userA =
     Some \<lparr>s_name = Some (Person Sheyx), s_mode = Some Debt\<rparr>"
    by (rule sampleStore_session)
  have h2: "s_name \<lparr>s_name = Some (Person Sheyx), s_mode = Some Debt\<rparr> = Some (Person Sheyx)"
    by simp
  have h3: "s_mode \<lparr>s_name = Some (Person Sheyx), s_mode = Some Debt\<rparr> \<noteq> Some Expenses"
    by simp
  note r = on_text_Debt [OF h1 h2 h3 amount_dotLine, of sampleEffects]
  note n = notifyOthers_allowed [OF otherUser_A userA_allowed]
  have t: "new_Date sampleEffects = sampleClock" "nanoid sampleEffects = sampleId"
    by (simp_all add: sampleEffects_def)
  show ?thesis
    unfolding r n
    using h1
    by (simp add: t note_dotLine sampleStore_entries specToken_dotLine parse_lone_dot)
qed

subsection \<open>C5: denying a clear\<close>

text \<open>
  C5. The deny action deletes nothing: whoever invokes it, the store it returns is the
  store it was given, so the entries after the action are the entries before it. And the
  requester is told: when an allow-listed requester's \<^verbatim>\<open>/clear\<close> has sent its
  approval prompt to an identity, that identity is allow-listed, and its deny action sends
  the denial notice to the requester and a reply to itself.
\<close>

theorem deny_clear_keeps_ledger:
  assumes "requester \<in> set ALLOWED_USERS"
    and "SendMessage approver (ClearApprovalRequest username) \<in>
           set (snd (clear_cmd ADMIN_ID requester username st0))"
  shows "fst (deny_clear userId st) = st \<and>
    approver \<in> set ALLOWED_USERS \<and>
    deny_clear approver st = (st, [SendMessage requester ClearDeniedByOther, Reply YourClearDenied])"
proof -
  have any: "fst (deny_clear userId st) = st"
    by (simp add: deny_clear_def split: option.splits)
  from assms have o: "otherUser requester = Some approver" by (rule clear_cmd_prompt)
  from assms(1) obtain other where other: "otherUser requester = Some other"
    "other \<in> set ALLOWED_USERS" "otherUser other = Some requester"
    by (rule otherUser_allowed)
  with o have "approver \<in> set ALLOWED_USERS" "otherUser approver = Some requester" by simp_all
  with any show ?thesis by (simp add: deny_clear_def)
qed

theorem deny_clear_keeps_ledger_witness:
  "userA \<in> set ALLOWED_USERS \<and>
   snd (clear_cmd userA userA (js ''sheyx'') (sampleStore None None)) =
     [SendDocument userA (PreviewReport [sampleEntry] [sampleEntry]),
      SendMessage userB (ClearApprovalRequest (js ''sheyx'')),
      Reply ClearRequestSent] \<and>
   deny_clear userB (sampleStore None None) =
     (sampleStore None None, [SendMessage userA ClearDeniedByOther, Reply YourClearDenied]) \<and>
   entries (fst (deny_clear userB (sampleStore None None))) = [sampleEntry]"
proof -
  have c: "snd (clear_cmd userA userA (js ''sheyx'') (sampleStore None None)) =
     [SendDocument userA (PreviewReport [sampleEntry] [sampleEntry]),
      SendMessage userB (ClearApprovalRequest (js ''sheyx'')),
      Reply ClearRequestSent]"
    by (simp add: clear_cmd_def userA_allowed otherUser_A sampleStore_entries)
  then have p: "SendMessage userB (ClearApprovalRequest (js ''sheyx'')) \<in>
      set (snd (clear_cmd userA userA (js ''sheyx'') (sampleStore None None)))"
    by simp
  from deny_clear_keeps_ledger [OF userA_allowed p, of userB "sampleStore None None"]
  have "deny_clear userB (sampleStore None None) =
     (sampleStore None None, [SendMessage userA ClearDeniedByOther, Reply YourClearDenied])"
    by blast
  with c show ?thesis by (simp add: userA_allowed sampleStore_entries)
qed

subsection \<open>C6: approving a clear\<close>

text \<open>
  C6. For allow-listed identities, the approve action leaves the ledger empty and the
  sessions as they were; a second approve action, by the same or by the other identity,
  gives the same store as the first alone; on a ledger that is already empty the action
  returns the store unchanged; and in every case it answers with the usual confirmation
  and the notice to the other identity, not with an error.
\<close>

theorem approve_clear_idempotent:
  assumes "userId \<in> set ALLOWED_USERS" and "approver \<in> set ALLOWED_USERS"
  shows "entries (fst (approve_clear userId st)) = [] \<and>
    sessions (fst (approve_clear userId st)) = sessions st \<and>
    fst (approve_clear approver (fst (approve_clear userId st))) = fst (approve_clear userId st) \<and>
    (entries st = [] \<longrightarrow> fst (approve_clear userId st) = st) \<and>
    (\<exists>other. snd (approve_clear userId st) = [Reply AllCleared, SendMessage other EntriesCleared])"
proof -
  from assms(1) obtain other where "otherUser userId = Some other" by (rule otherUser_allowed)
  then show ?thesis
    using assms by (simp add: approve_clear_def Entry_deleteMany_def)
qed

theorem approve_clear_idempotent_witness:
  "userB \<in> set ALLOWED_USERS \<and> userA \<in> set ALLOWED_USERS \<and>
   fst (approve_clear userB (sampleStore None None)) =
     \<lparr>entries = [], sessions = [userA \<mapsto> \<lparr>s_name = None, s_mode = None\<rparr>]\<rparr> \<and>
   fst (approve_clear userA (fst (approve_clear userB (sampleStore None None)))) =
     fst (approve_clear userB (sampleStore None None)) \<and>
   entries emptyStore = [] \<and>
   approve_clear userB emptyStore =
     (emptyStore, [Reply AllCleared, SendMessage userA EntriesCleared])"
proof -
  note w1 = approve_clear_idempotent [OF userB_allowed userA_allowed, of "sampleStore None None"]
  note w2 = approve_clear_idempotent [OF userB_allowed userA_allowed, of emptyStore]
  have e: "entries emptyStore = []" by (simp add: emptyStore_def)
  from w1 have "fst (approve_clear userB (sampleStore None None)) =
     \<lparr>entries = [], sessions = [userA \<mapsto> \<lparr>s_name = None, s_mode = None\<rparr>]\<rparr>"
    by (intro store.equality) (simp_all add: sampleStore_def)
  moreover from w1 have "fst (approve_clear userA (fst (approve_clear userB (sampleStore None None)))) =
     fst (approve_clear userB (sampleStore None None))" by blast
  moreover from w2 e have "fst (approve_clear userB emptyStore) = emptyStore" by blast
  moreover have "snd (approve_clear userB emptyStore) = [Reply AllCleared, SendMessage userA EntriesCleared]"
    by (simp add: approve_clear_def userB_allowed otherUser_B)
  ultimately show ?thesis
    using e by (simp add: userA_allowed userB_allowed prod_eq_iff)
qed

subsection \<open>C7: the access guard\<close>

text \<open>
  C7. For every update whose sender is not on the allow-list, the guard sends the
  administrator an alert that carries the sender's user name, the sender's identity and
  the text of the message (the word \<^verbatim>\<open>Unknown\<close> when the update is not a message with
  text), replies to the sender with the refusal, and returns the store as it was given.
  The rest of the chain is not called: the result is the same whatever handler follows
  the guard.
\<close>

theorem unauthorized_is_refused:
  assumes "from_id c \<notin> set ALLOWED_USERS"
  shows "auth ADMIN_ID c next st =
      (st, [SendMessage ADMIN_ID
              (UnauthorizedAlert (from_username c) (from_id c)
                 (case message_text c of Some t \<Rightarrow> t | None \<Rightarrow> js ''Unknown'')),
            Reply NotAuthorizedForBot]) \<and>
    auth ADMIN_ID c next st = auth ADMIN_ID c other_next st"
  using assms by (simp add: auth_def)

text \<open>
  An outsider sends \<^verbatim>\<open>/add\<close>. Run alone, that command would create a session.
\<close>

theorem unauthorized_is_refused_witness:
  "stranger \<notin> set ALLOWED_USERS \<and>
   auth userA \<lparr>from_id = stranger, from_username = js ''mallory'', message_text = Some (js ''/add'')\<rparr>
     (add_cmd stranger) emptyStore =
     (emptyStore,
      [SendMessage userA (UnauthorizedAlert (js ''mallory'') stranger (js ''/add'')),
       Reply NotAuthorizedForBot]) \<and>
   fst (add_cmd stranger emptyStore) \<noteq> emptyStore"
proof -
  have h: "from_id \<lparr>from_id = stranger, from_username = js ''mallory'', message_text = Some (js ''/add'')\<rparr>
      \<notin> set ALLOWED_USERS"
    by (simp add: stranger_not_allowed)
  have "sessions (fst (add_cmd stranger emptyStore)) stranger \<noteq> sessions emptyStore stranger"
    by (simp add: add_cmd_def Session_findOneAndUpdate_def emptyStore_def)
  then have d: "fst (add_cmd stranger emptyStore) \<noteq> emptyStore" by auto
  from unauthorized_is_refused [OF h, of userA "add_cmd stranger" emptyStore] d
  show ?thesis by (simp add: stranger_not_allowed)
qed

subsection \<open>C8: free text while idle\<close>

text \<open>
  C8. When the sender has no session, or a session whose name is unset, the text handler
  does nothing: it sends no reply, and the store it returns is the store it was given, so
  no entry is inserted and no session field changes.
\<close>

theorem idle_text_ignored:
  assumes "sessions st userId = None \<or> (\<exists>s. sessions st userId = Some s \<and> s_name s = None)"
  shows "on_text env userId text st = (st, [])"
  using assms by (rule on_text_idle)

theorem idle_text_ignored_witness:
  "sessions emptyStore userA = None \<and>
   on_text sampleEffects userA (js ''50000 snacks'') emptyStore = (emptyStore, []) \<and>
   sessions (sampleStore None None) userA = Some \<lparr>s_name = None, s_mode = None\<rparr> \<and>
   on_text sampleEffects userA (js ''50000 snacks'') (sampleStore None None) =
     (sampleStore None None, [])"
proof -
  have a: "sessions emptyStore userA = None" by (simp add: emptyStore_def)
  have b: "sessions (sampleStore None None) userA = Some \<lparr>s_name = None, s_mode = None\<rparr>"
    by (rule sampleStore_session)
  have "on_text sampleEffects userA (js ''50000 snacks'') emptyStore = (emptyStore, [])"
    using a by (intro idle_text_ignored) simp
  moreover have "on_text sampleEffects userA (js ''50000 snacks'') (sampleStore None None) =
     (sampleStore None None, [])"
    using b by (intro idle_text_ignored) simp
  ultimately show ?thesis using a b by simp
qed

subsection \<open>C9: an amount sent before a type is chosen\<close>

text \<open>
  C9. When the sender's session names a participant and its mode is still unset, as it is
  right after the participant button, a message with a valid amount \<open>T\<close> is committed:
  exactly one entry with the full amount \<open>T\<close> is appended for that participant, the
  session is set back to idle, and the confirmation and the notifications are those of a
  debt. The handler's result is the very result it gives when the mode is debt; the
  message is not rejected and no mode is asked for.
\<close>

theorem person_without_mode_commits_debt:
  assumes "sessions st userId = Some session" and "s_name session = Some (Person who)"
    and "s_mode session = None" and "textAmount text = Some T"
  shows "on_text env userId text st =
      (st\<lparr>entries := entries st @
             [\<lparr>e_id = nanoid env 0, e_name = who, e_amount = T,
               e_note = textNote text, e_time = new_Date env 0\<rparr>],
           sessions := (sessions st)(userId \<mapsto> \<lparr>s_name = None, s_mode = None\<rparr>)\<rparr>,
       Reply (DebtRecorded who T) #
       notifyOthers ALLOWED_USERS userId (DebtNotice who T (textNote text)) env 1) \<and>
    on_text env userId text st =
      on_text env userId text
        (st\<lparr>sessions := (sessions st)(userId \<mapsto> session\<lparr>s_mode := Some Debt\<rparr>)\<rparr>)"
proof -
  let ?st' = "st\<lparr>sessions := (sessions st)(userId \<mapsto> session\<lparr>s_mode := Some Debt\<rparr>)\<rparr>"
  have m: "s_mode session \<noteq> Some Expenses" using assms(3) by simp
  have a: "sessions ?st' userId = Some (session\<lparr>s_mode := Some Debt\<rparr>)" by simp
  have b: "s_name (session\<lparr>s_mode := Some Debt\<rparr>) = Some (Person who)" using assms(2) by simp
  have c: "s_mode (session\<lparr>s_mode := Some Debt\<rparr>) \<noteq> Some Expenses" by simp
  show ?thesis
    by (simp add: on_text_Debt [OF assms(1,2) m assms(4)] on_text_Debt [OF a b c assms(4)])
qed

text \<open>
  The session used here is the one the participant button leaves behind.
\<close>

theorem person_without_mode_commits_debt_witness:
  "sessions (fst (choose_person Sheyx userA emptyStore)) userA =
     Some \<lparr>s_name = Some (Person Sheyx), s_mode = None\<rparr> \<and>
   textAmount (js ''30.000 borrowed'') = Some 30000 \<and>
   on_text sampleEffects userA (js ''30.000 borrowed'') (fst (choose_person Sheyx userA emptyStore)) =
     (\<lparr>entries = [\<lparr>e_id = sampleId 0, e_name = Sheyx, e_amount = 30000,
                    e_note = js ''borrowed'', e_time = sampleClock 0\<rparr>],
       sessions = [userA \<mapsto> \<lparr>s_name = None, s_mode = None\<rparr>]\<rparr>,
      [Reply (DebtRecorded Sheyx 30000),
       SendMessage userB (DebtNotice Sheyx 30000 (js ''borrowed'') (sampleClock 1))])"
proof -
  have h1: "sessions (fst (choose_person Sheyx userA emptyStore)) userA =
     Some \<lparr>s_name = Some (Person Sheyx), s_mode = None\<rparr>"
    by (rule choose_person_session)
  have h2: "s_name \<lparr>s_name = Some (Person Sheyx), s_mode = None\<rparr> = Some (Person Sheyx)" by simp
  have h3: "s_mode \<lparr>s_name = Some (Person Sheyx), s_mode = None\<rparr> = None" by simp
  have st: "fst (choose_person Sheyx userA emptyStore) =
      \<lparr>entries = [], sessions = [userA \<mapsto> \<lparr>s_name = Some (Person Sheyx), s_mode = None\<rparr>]\<rparr>"
    by (simp add: choose_person_def Session_findOneAndUpdate_def emptyStore_def)
  note n = notifyOthers_allowed [OF otherUser_A userA_allowed]
  from person_without_mode_commits_debt [OF h1 h2 h3 amount_borrowed, of sampleEffects]
  have "on_text sampleEffects userA (js ''30.000 borrowed'') (fst (choose_person Sheyx userA emptyStore)) =
      ((fst (choose_person Sheyx userA emptyStore))
         \<lparr>entries := entries (fst (choose_person Sheyx userA emptyStore)) @
             [\<lparr>e_id = nanoid sampleEffects 0, e_name = Sheyx, e_amount = 30000,
               e_note = textNote (js ''30.000 borrowed''), e_time = new_Date sampleEffects 0\<rparr>],
           sessions := (sessions (fst (choose_person Sheyx userA emptyStore)))
             (userA \<mapsto> \<lparr>s_name = None, s_mode = None\<rparr>)\<rparr>,
       Reply (DebtRecorded Sheyx 30000) #
       notifyOthers ALLOWED_USERS userA (DebtNotice Sheyx 30000 (textNote (js ''30.000 borrowed'')))
         sampleEffects 1)"
    by blast
  then show ?thesis
    using h1 amount_borrowed by (simp add: note_borrowed n st sampleEffects_def)
qed

subsection \<open>C10: delete looks the entry up before it checks the sender\<close>

text \<open>
  C10. Let an allow-listed identity, administrator or not, send \<^verbatim>\<open>/delete\<close> with a
  message of exactly two space-delimited parts, the second being the id. When no entry
  has that id, the reply is the not-found message and the store is unchanged. The
  refusal is among the replies exactly when an entry with that id exists and the sender is
  not the administrator; then the refusal is the only reply and the store is unchanged.
\<close>

theorem delete_checks_existence_first:
  assumes "userId \<in> set ALLOWED_USERS" and "split_on 0x20 text = [command, entryId]"
  shows "(entryId \<notin> e_id ` set (entries st) \<longrightarrow>
       delete_cmd ADMIN_ID userId text st = (st, [Reply (EntryNotFound entryId)])) \<and>
    (Reply NotAuthorizedToDelete \<in> set (snd (delete_cmd ADMIN_ID userId text st)) \<longleftrightarrow>
       entryId \<in> e_id ` set (entries st) \<and> userId \<noteq> ADMIN_ID) \<and>
    (Reply NotAuthorizedToDelete \<in> set (snd (delete_cmd ADMIN_ID userId text st)) \<longrightarrow>
       delete_cmd ADMIN_ID userId text st = (st, [Reply NotAuthorizedToDelete]))"
proof (cases "Entry_findOne entryId st")
  case None
  then have "entryId \<notin> e_id ` set (entries st)" by (simp add: findOne_None_iff)
  with None show ?thesis using assms by (simp add: delete_cmd_def)
next
  case (Some entry)
  then have "entryId \<in> e_id ` set (entries st)"
    using findOne_None_iff [of entryId st] by simp
  with Some show ?thesis using assms by (auto simp: delete_cmd_def)
qed

text \<open>
  An unknown id gets the not-found reply from the other user and from the administrator
  alike; a known id gets the refusal when the sender is not the administrator.
\<close>

theorem delete_checks_existence_first_witness:
  "userB \<in> set ALLOWED_USERS \<and>
   split_on 0x20 (js ''/delete zzz999'') = [js ''/delete'', js ''zzz999''] \<and>
   js ''zzz999'' \<notin> e_id ` set (entries (sampleStore None None)) \<and>
   delete_cmd userA userB (js ''/delete zzz999'') (sampleStore None None) =
     (sampleStore None None, [Reply (EntryNotFound (js ''zzz999''))]) \<and>
   delete_cmd userA userA (js ''/delete zzz999'') (sampleStore None None) =
     (sampleStore None None, [Reply (EntryNotFound (js ''zzz999''))]) \<and>
   split_on 0x20 (js ''/delete abc123'') = [js ''/delete'', js ''abc123''] \<and>
   js ''abc123'' \<in> e_id ` set (entries (sampleStore None None)) \<and> userB \<noteq> userA \<and>
   delete_cmd userA userB (js ''/delete abc123'') (sampleStore None None) =
     (sampleStore None None, [Reply NotAuthorizedToDelete])"
proof -
  have m: "js ''zzz999'' \<notin> e_id ` set (entries (sampleStore None None))"
    by (simp add: sampleStore_entries sampleEntry_def js_def)
  have p: "js ''abc123'' \<in> e_id ` set (entries (sampleStore None None))"
    by (simp add: sampleStore_entries sampleEntry_def)
  have ne: "userB \<noteq> userA" using users_distinct by (simp add: userA_def userB_def)
  note w1 = delete_checks_existence_first [OF userB_allowed delete_parts_missing,
      of "sampleStore None None" userA]
  note w2 = delete_checks_existence_first [OF userA_allowed delete_parts_missing,
      of "sampleStore None None" userA]
  note w3 = delete_checks_existence_first [OF userB_allowed delete_parts,
      of "sampleStore None None" userA]
  from w1 m have a: "delete_cmd userA userB (js ''/delete zzz999'') (sampleStore None None) =
     (sampleStore None None, [Reply (EntryNotFound (js ''zzz999''))])" by blast
  from w2 m have b: "delete_cmd userA userA (js ''/delete zzz999'') (sampleStore None None) =
     (sampleStore None None, [Reply (EntryNotFound (js ''zzz999''))])" by blast
  from w3 p ne have c: "delete_cmd userA userB (js ''/delete abc123'') (sampleStore None None) =
     (sampleStore None None, [Reply NotAuthorizedToDelete])" by blast
  from a b c m p ne show ?thesis
    by (simp add: userB_allowed delete_parts delete_parts_missing)
qed

end
